theory Spec2Isabelle
  imports Complex_Main "HOL-Library.Log_Nat"
begin

section \<open>JavaScript values\<close>

text \<open>
  The store of \<^verbatim>\<open>lib/connect-db2.js\<close> is glue between three collaborators: the
  JavaScript built-ins (\<^verbatim>\<open>Date\<close>, \<^verbatim>\<open>Math.round\<close>, \<^verbatim>\<open>JSON\<close>), the session
  objects handed in by the session framework, and the \<^verbatim>\<open>ibm_db\<close> connection. The
  functions of the file are embedded line by line; the collaborators are modelled as far
  as the file uses them. The calls of \<^verbatim>\<open>debug\<close> only log and are left out.

  A JavaScript number is a double: a finite value, \<^verbatim>\<open>NaN\<close> or an infinity. A finite
  value is kept as the rational it is; the sign of zero is not kept. The file computes in
  two places. \<^verbatim>\<open>Date.now() + expiration\<close> is the double sum, the exact sum rounded to the
  nearest double (\<open>js_add\<close> below). \<^verbatim>\<open>getTime() / 1000\<close> divides a time value, an integer
  of at most 8.64e15 in size: the double quotient is nearer to the exact one than to any
  half, so \<^verbatim>\<open>Math.round\<close> of it is the rounding of the exact quotient, and the quotient
  is kept exact.
\<close>

datatype jsnum = Fin rat | NaN | PosInf | NegInf

text \<open>
  A value of the language, as far as a session can hold one. An object is the list of its
  own enumerable properties in enumeration order; a \<^verbatim>\<open>Date\<close> carries its time value in
  milliseconds, \<open>None\<close> for an invalid date.
\<close>

datatype jsval =
    Undefined
  | Null
  | Bool bool
  | Num jsnum
  | BigInt int
  | Str string
  | Function
  | DateV "int option"
  | Arr "jsval list"
  | Obj "(string \<times> jsval) list"

datatype error =
    TypeError string
  | SyntaxError
  | AssertionError
  | Error string
  | SqlError string

text \<open>Truthiness, as \<^verbatim>\<open>if (v)\<close> and \<^verbatim>\<open>!v\<close> test it.\<close>

fun truthy :: "jsval \<Rightarrow> bool" where
  "truthy Undefined = False"
| "truthy Null = False"
| "truthy (Bool b) = b"
| "truthy (Num (Fin r)) = (r \<noteq> 0)"
| "truthy (Num NaN) = False"
| "truthy (Num PosInf) = True"
| "truthy (Num NegInf) = True"
| "truthy (BigInt n) = (n \<noteq> 0)"
| "truthy (Str s) = (s \<noteq> [])"
| "truthy Function = True"
| "truthy (DateV t) = True"
| "truthy (Arr xs) = True"
| "truthy (Obj ps) = True"

text \<open>
  Reading the property \<open>k\<close> of a value that is neither \<^verbatim>\<open>null\<close> nor
  \<^verbatim>\<open>undefined\<close>. The file reads the names \<^verbatim>\<open>cookie\<close>, \<^verbatim>\<open>expires\<close> and
  \<^verbatim>\<open>_expires\<close> only, which no built-in prototype defines, so everything but an object
  with that own property answers \<^verbatim>\<open>undefined\<close>.
\<close>

fun property :: "jsval \<Rightarrow> string \<Rightarrow> jsval" where
  "property (Obj ps) k = (case map_of ps k of None \<Rightarrow> Undefined | Some v \<Rightarrow> v)"
| "property v k = Undefined"

text \<open>The same read where the value may be \<^verbatim>\<open>null\<close> or \<^verbatim>\<open>undefined\<close>: that throws.\<close>

fun get_prop :: "jsval \<Rightarrow> string \<Rightarrow> error + jsval" where
  "get_prop Undefined k = Inl (TypeError ''Cannot read properties of undefined'')"
| "get_prop Null k = Inl (TypeError ''Cannot read properties of null'')"
| "get_prop v k = Inr (property v k)"

subsection \<open>Numbers and dates\<close>

text \<open>
  Rounding a rational to the nearest double, as every arithmetic operation of the
  language does with its exact result: 53 significant bits, a tie going to the even
  one, the exponent no lower than that of the subnormal numbers, and an infinity from
  \<open>2^1024\<close> on. \<open>floor_log2 x\<close> is the exponent of a positive \<open>x\<close>, the \<open>e\<close> with
  \<open>2^e \<le> x < 2^(e + 1)\<close>, found from the bit lengths of numerator and denominator.
\<close>

definition pow2 :: "int \<Rightarrow> rat" where
  "pow2 e = (if 0 \<le> e then 2 ^ nat e else 1 / 2 ^ nat (- e))"

definition floor_log2 :: "rat \<Rightarrow> int" where
  "floor_log2 x =
     (case quotient_of x of
        (a, b) \<Rightarrow> let d = bitlen a - bitlen b in if pow2 d \<le> x then d else d - 1)"

definition round_half_even :: "rat \<Rightarrow> int" where
  "round_half_even q =
     (let f = \<lfloor>q\<rfloor> in
      if q - of_int f < 1 / 2 then f
      else if 1 / 2 < q - of_int f then f + 1
      else if even f then f else f + 1)"

definition to_double :: "rat \<Rightarrow> jsnum" where
  "to_double x =
     (if x = 0 then Fin 0
      else let e = max (floor_log2 \<bar>x\<bar>) (- 1022);
               ulp = pow2 (e - 52);
               y = of_int (round_half_even (x / ulp)) * ulp
           in if pow2 1024 \<le> \<bar>y\<bar> then (if 0 < x then PosInf else NegInf) else Fin y)"

text \<open>The sum of two numbers.\<close>

fun js_add :: "jsnum \<Rightarrow> jsnum \<Rightarrow> jsnum" where
  "js_add (Fin a) (Fin b) = to_double (a + b)"
| "js_add NaN y = NaN"
| "js_add x NaN = NaN"
| "js_add PosInf NegInf = NaN"
| "js_add NegInf PosInf = NaN"
| "js_add PosInf y = PosInf"
| "js_add NegInf y = NegInf"
| "js_add x PosInf = PosInf"
| "js_add x NegInf = NegInf"

text \<open>
  Division by a finite divisor other than zero, kept exact: the file divides time values
  by 1000 only.
\<close>

fun js_div :: "jsnum \<Rightarrow> rat \<Rightarrow> jsnum" where
  "js_div (Fin a) d = Fin (a / d)"
| "js_div NaN d = NaN"
| "js_div PosInf d = (if 0 < d then PosInf else NegInf)"
| "js_div NegInf d = (if 0 < d then NegInf else PosInf)"

text \<open>\<^verbatim>\<open>Math.round\<close>: the nearest integer, a tie going up.\<close>

fun Math_round :: "jsnum \<Rightarrow> jsnum" where
  "Math_round (Fin r) = Fin (of_int (round r))"
| "Math_round x = x"

text \<open>
  \<^verbatim>\<open>TimeClip\<close>: the time value of \<^verbatim>\<open>new Date(n)\<close> for a number \<open>n\<close>: the integer part,
  and no time at all beyond 8.64e15 milliseconds either side of the epoch.
\<close>

fun TimeClip :: "jsnum \<Rightarrow> int option" where
  "TimeClip (Fin r) =
     (if \<bar>r\<bar> > 8640000000000000 then None
      else Some (if 0 \<le> r then \<lfloor>r\<rfloor> else \<lceil>r\<rceil>))"
| "TimeClip x = None"

text \<open>\<^verbatim>\<open>getTime()\<close> of a date.\<close>

fun getTime :: "int option \<Rightarrow> jsnum" where
  "getTime None = NaN"
| "getTime (Some t) = Fin (of_int t)"

text \<open>
  What the platform supplies beyond the language core. \<open>Date_parse\<close> is the date parser
  on a string, whose answer outside the ISO format is left to the implementation.
  \<open>Date_convert\<close> is \<^verbatim>\<open>new Date(v)\<close> for an array, a function or an object \<open>v\<close>: the
  value is first converted to a primitive by its \<^verbatim>\<open>valueOf\<close> and \<^verbatim>\<open>toString\<close> methods,
  own or inherited, which the model does not see, and the answer is the time value of the
  primitive or the \<^verbatim>\<open>TypeError\<close> of a conversion that fails. \<open>toISOString\<close> is the ISO
  string of a time value.
\<close>

record platform =
  Date_parse :: "string \<Rightarrow> int option"
  Date_convert :: "jsval \<Rightarrow> error + int option"
  toISOString :: "int \<Rightarrow> string"

text \<open>
  \<^verbatim>\<open>new Date(v)\<close> for one argument: its time value, or the error it throws. For an
  object one case is decided by its own properties: when its own \<^verbatim>\<open>toString\<close> is not
  callable and it has no callable \<^verbatim>\<open>valueOf\<close> of its own, no method yields a primitive
  (the inherited \<^verbatim>\<open>valueOf\<close> answers the object itself) and the conversion throws.
\<close>

fun new_Date :: "platform \<Rightarrow> jsval \<Rightarrow> error + int option" where
  "new_Date p Undefined = Inr None"
| "new_Date p Null = Inr (Some 0)"
| "new_Date p (Bool b) = Inr (Some (if b then 1 else 0))"
| "new_Date p (Num n) = Inr (TimeClip n)"
| "new_Date p (BigInt n) = Inl (TypeError ''Cannot convert a BigInt value to a number'')"
| "new_Date p (DateV t) = Inr t"
| "new_Date p (Str s) = Inr (Date_parse p s)"
| "new_Date p Function = Date_convert p Function"
| "new_Date p (Arr xs) = Date_convert p (Arr xs)"
| "new_Date p (Obj ps) =
     (if map_of ps ''valueOf'' = Some Function \<or> map_of ps ''toString'' = Some Function
      then Date_convert p (Obj ps)
      else if map_of ps ''toString'' \<noteq> None
      then Inl (TypeError ''Cannot convert object to primitive value'')
      else Date_convert p (Obj ps))"

section \<open>The expiry of a session\<close>

text \<open>
  \<^verbatim>\<open>getExpires(sess, expiration)\<close>, lines 46 to 69. \<open>now\<close> is what \<^verbatim>\<open>Date.now()\<close>
  answers at the call. The result is the number the function returns, or the error it
  throws: reading \<^verbatim>\<open>sess.cookie\<close> of \<^verbatim>\<open>null\<close> or \<^verbatim>\<open>undefined\<close>, or a date built
  from a \<^verbatim>\<open>BigInt\<close> or from an object that cannot be converted to a primitive.
\<close>

definition pick_expires :: "jsval \<Rightarrow> jsval" where
  "pick_expires cookie =
     (if truthy cookie then
        if truthy (property cookie ''expires'') then property cookie ''expires''
        else if truthy (property cookie ''_expires'') then property cookie ''_expires''
        else Undefined
      else Undefined)"

definition to_Date :: "platform \<Rightarrow> jsval \<Rightarrow> error + int option" where
  "to_Date p v = (case v of DateV t \<Rightarrow> Inr t | _ \<Rightarrow> new_Date p v)"

definition getExpires :: "platform \<Rightarrow> int \<Rightarrow> jsval \<Rightarrow> jsnum \<Rightarrow> error + jsnum" where
  "getExpires p now sess expiration =
     (case get_prop sess ''cookie'' of
        Inl e \<Rightarrow> Inl e
      | Inr cookie \<Rightarrow>
          let expires = pick_expires cookie;
              expires = (if \<not> truthy expires
                         then Num (js_add (Fin (of_int now)) expiration) else expires)
          in case to_Date p expires of
               Inl e \<Rightarrow> Inl e
             | Inr d \<Rightarrow> Inr (Math_round (js_div (getTime d) 1000)))"

text \<open>
  The computation as the specification words it: the field \<^verbatim>\<open>cookie.expires\<close> if
  present, else \<^verbatim>\<open>cookie._expires\<close> if present, else now plus the configured expiration,
  in whole seconds. A field is present when the cookie has a property of that name.
\<close>

fun present :: "jsval \<Rightarrow> string \<Rightarrow> bool" where
  "present (Obj ps) k = (map_of ps k \<noteq> None)"
| "present v k = False"

definition spec_getExpires :: "platform \<Rightarrow> int \<Rightarrow> jsval \<Rightarrow> jsnum \<Rightarrow> error + jsnum" where
  "spec_getExpires p now sess expiration =
     (case get_prop sess ''cookie'' of
        Inl e \<Rightarrow> Inl e
      | Inr cookie \<Rightarrow>
          let source = (if present cookie ''expires'' then property cookie ''expires''
                        else if present cookie ''_expires'' then property cookie ''_expires''
                        else Num (js_add (Fin (of_int now)) expiration))
          in case to_Date p source of
               Inl e \<Rightarrow> Inl e
             | Inr d \<Rightarrow> Inr (Math_round (js_div (getTime d) 1000)))"

section \<open>JSON\<close>

text \<open>
  The file writes the text of \<^verbatim>\<open>JSON.stringify\<close> into the data column and hands what it
  reads there to \<^verbatim>\<open>JSON.parse\<close>. The model does not spell a JSON text character by
  character: a text is the document it spells, and every text that spells none is
  \<open>Garbled\<close>.
\<close>

datatype json =
    JNull
  | JBool bool
  | JNum rat
  | JStr string
  | JArr "json list"
  | JObj "(string \<times> json) list"

datatype jtext = Spells json | Garbled

text \<open>
  \<^verbatim>\<open>JSON.stringify\<close>, after the language's \<^verbatim>\<open>SerializeJSONProperty\<close>: \<open>None\<close> is the
  answer \<^verbatim>\<open>undefined\<close>. A date answers through its \<^verbatim>\<open>toJSON\<close> with its ISO string
  (\<^verbatim>\<open>null\<close> when invalid), a number that is not finite becomes \<^verbatim>\<open>null\<close>, a
  \<^verbatim>\<open>BigInt\<close> throws; \<^verbatim>\<open>undefined\<close> and functions vanish from an object and become
  \<^verbatim>\<open>null\<close> in an array. A function is opaque, so an object with a \<^verbatim>\<open>toJSON\<close> method of
  its own is outside the model, as is a value that holds itself, which cannot be written
  as a tree.
\<close>

fun SerializeJSONProperty :: "platform \<Rightarrow> jsval \<Rightarrow> error + json option"
  and SerializeJSONArray :: "platform \<Rightarrow> jsval list \<Rightarrow> error + json list"
  and SerializeJSONObject :: "platform \<Rightarrow> (string \<times> jsval) list \<Rightarrow> error + (string \<times> json) list"
where
  "SerializeJSONProperty p Undefined = Inr None"
| "SerializeJSONProperty p Function = Inr None"
| "SerializeJSONProperty p Null = Inr (Some JNull)"
| "SerializeJSONProperty p (Bool b) = Inr (Some (JBool b))"
| "SerializeJSONProperty p (Num n) = Inr (Some (case n of Fin r \<Rightarrow> JNum r | _ \<Rightarrow> JNull))"
| "SerializeJSONProperty p (BigInt n) = Inl (TypeError ''Do not know how to serialize a BigInt'')"
| "SerializeJSONProperty p (Str s) = Inr (Some (JStr s))"
| "SerializeJSONProperty p (DateV t) =
     Inr (Some (case t of None \<Rightarrow> JNull | Some ms \<Rightarrow> JStr (toISOString p ms)))"
| "SerializeJSONProperty p (Arr xs) =
     (case SerializeJSONArray p xs of Inl e \<Rightarrow> Inl e | Inr js \<Rightarrow> Inr (Some (JArr js)))"
| "SerializeJSONProperty p (Obj ps) =
     (case SerializeJSONObject p ps of Inl e \<Rightarrow> Inl e | Inr ms \<Rightarrow> Inr (Some (JObj ms)))"
| "SerializeJSONArray p [] = Inr []"
| "SerializeJSONArray p (x # xs) =
     (case SerializeJSONProperty p x of
        Inl e \<Rightarrow> Inl e
      | Inr j \<Rightarrow>
          (case SerializeJSONArray p xs of
             Inl e \<Rightarrow> Inl e
           | Inr js \<Rightarrow> Inr ((case j of None \<Rightarrow> JNull | Some j' \<Rightarrow> j') # js)))"
| "SerializeJSONObject p [] = Inr []"
| "SerializeJSONObject p ((k, v) # ps) =
     (case SerializeJSONProperty p v of
        Inl e \<Rightarrow> Inl e
      | Inr j \<Rightarrow>
          (case SerializeJSONObject p ps of
             Inl e \<Rightarrow> Inl e
           | Inr ms \<Rightarrow> Inr (case j of None \<Rightarrow> ms | Some j' \<Rightarrow> (k, j') # ms)))"

definition JSON_stringify :: "platform \<Rightarrow> jsval \<Rightarrow> error + jtext option" where
  "JSON_stringify p v =
     (case SerializeJSONProperty p v of
        Inl e \<Rightarrow> Inl e
      | Inr None \<Rightarrow> Inr None
      | Inr (Some j) \<Rightarrow> Inr (Some (Spells j)))"

text \<open>
  \<^verbatim>\<open>JSON.parse\<close>: the value a document stands for. A member whose name came before
  replaces the earlier value in its place.
\<close>

fun CreateDataProperty :: "string \<Rightarrow> jsval \<Rightarrow> (string \<times> jsval) list \<Rightarrow> (string \<times> jsval) list" where
  "CreateDataProperty k v [] = [(k, v)]"
| "CreateDataProperty k v ((k', v') # ps) =
     (if k = k' then (k, v) # ps else (k', v') # CreateDataProperty k v ps)"

fun json_value :: "json \<Rightarrow> jsval"
  and json_elements :: "json list \<Rightarrow> jsval list"
  and json_members :: "(string \<times> json) list \<Rightarrow> (string \<times> jsval) list \<Rightarrow> (string \<times> jsval) list"
where
  "json_value JNull = Null"
| "json_value (JBool b) = Bool b"
| "json_value (JNum r) = Num (Fin r)"
| "json_value (JStr s) = Str s"
| "json_value (JArr js) = Arr (json_elements js)"
| "json_value (JObj ms) = Obj (json_members ms [])"
| "json_elements [] = []"
| "json_elements (j # js) = json_value j # json_elements js"
| "json_members [] acc = acc"
| "json_members ((k, j) # ms) acc = json_members ms (CreateDataProperty k (json_value j) acc)"

fun JSON_parse :: "jtext \<Rightarrow> error + jsval" where
  "JSON_parse (Spells j) = Inr (json_value j)"
| "JSON_parse Garbled = Inl SyntaxError"

text \<open>
  The values made of JSON's own kinds of value only (\<^verbatim>\<open>null\<close>, booleans, finite
  numbers, strings, arrays, objects), an object naming each property once.
\<close>

fun plain_json :: "jsval \<Rightarrow> bool" where
  "plain_json Null = True"
| "plain_json (Bool b) = True"
| "plain_json (Num n) = (case n of Fin r \<Rightarrow> True | _ \<Rightarrow> False)"
| "plain_json (Str s) = True"
| "plain_json (Arr xs) = (\<forall>x \<in> set xs. plain_json x)"
| "plain_json (Obj ps) =
     (distinct (map fst ps) \<and> (\<forall>kv \<in> set ps. plain_json (snd kv)))"
| "plain_json v = False"

fun is_object :: "jsval \<Rightarrow> bool" where
  "is_object (Obj ps) = True"
| "is_object v = False"

section \<open>The database connection\<close>

text \<open>
  The statements the file sends, each with the names \<^verbatim>\<open>util.format\<close> puts into it.
  \<open>sql_text\<close> is the string the file builds; the database below reads the statement the
  string spells for names without a double quote in them.
\<close>

datatype stmt =
    SelectData string string string
  | CountWhere string string
  | UpdateRow string string string string
  | InsertRow string string string string
  | DeleteWhere string string
  | UpdateExpires string string string
  | CountAll string
  | DeleteAll string
  | CreateTable string string string string
  | DropTable string

fun sql_text :: "stmt \<Rightarrow> string" where
  "sql_text (SelectData d t s) =
     ''SELECT \"'' @ d @ ''\" AS \"data\" FROM \"'' @ t @ ''\" WHERE \"'' @ s @ ''\" = ?''"
| "sql_text (CountWhere t s) =
     ''SELECT COUNT(*) AS \"length\" FROM \"'' @ t @ ''\" WHERE \"'' @ s @ ''\" = ?''"
| "sql_text (UpdateRow t e d s) =
     ''UPDATE \"'' @ t @ ''\" SET \"'' @ e @ ''\" = ?, \"'' @ d @ ''\" = ? WHERE \"'' @ s
       @ ''\" = ?''"
| "sql_text (InsertRow t s e d) =
     ''INSERT INTO \"'' @ t @ ''\" (\"'' @ s @ ''\", \"'' @ e @ ''\", \"'' @ d
       @ ''\") VALUES (?, ?, ?)''"
| "sql_text (DeleteWhere t s) = ''DELETE FROM \"'' @ t @ ''\" WHERE \"'' @ s @ ''\" = ?''"
| "sql_text (UpdateExpires t e s) =
     ''UPDATE \"'' @ t @ ''\" SET \"'' @ e @ ''\" = ? WHERE \"'' @ s @ ''\" = ?''"
| "sql_text (CountAll t) = ''SELECT COUNT(*) AS \"length\" FROM \"'' @ t @ ''\"''"
| "sql_text (DeleteAll t) = ''DELETE FROM \"'' @ t @ ''\"''"
| "sql_text (CreateTable t s e d) =
     ''CREATE TABLE \"'' @ t @ ''\" (\"'' @ s @ ''\" VARCHAR(255) NOT NULL PRIMARY KEY, \"''
       @ e @ ''\" BIGINT NOT NULL, \"'' @ d @ ''\" VARCHAR(8100))''"
| "sql_text (DropTable t) = ''DROP TABLE \"'' @ t @ ''\"''"

text \<open>The values bound to the \<^verbatim>\<open>?\<close> markers, and the row objects a query answers with.\<close>

datatype sqlval = SStr string | SNum jsnum | SText jtext | SNull

datatype rowobj = DataRow "jtext option" | LengthRow int

record row =
  r_sid :: string
  r_expires :: jsnum
  r_data :: "jtext option"

record table =
  t_session_id :: string
  t_expires :: string
  t_data :: string
  t_rows :: "row list"

type_synonym database = "string \<rightharpoonup> table"

text \<open>
  The database behind the connection: tables by name, each with the three columns of
  \<^verbatim>\<open>createDatabaseTable\<close> and its rows in the order they were inserted. A statement
  fails when it names a table or a column that is not there, when an insert repeats a
  primary key, when a table is created twice or dropped without being there. A value is
  stored as it is bound; the sizes of the \<^verbatim>\<open>VARCHAR\<close> columns are not modelled.
\<close>

definition on_table ::
  "database \<Rightarrow> string \<Rightarrow> (table \<Rightarrow> bool) \<Rightarrow> (table \<Rightarrow> error + database \<times> rowobj list)
     \<Rightarrow> error + database \<times> rowobj list" where
  "on_table db t cols f =
     (case db t of
        None \<Rightarrow> Inl (SqlError ''table not found'')
      | Some tb \<Rightarrow> if cols tb then f tb else Inl (SqlError ''column not found''))"

definition matching :: "string \<Rightarrow> row list \<Rightarrow> row list" where
  "matching sid rs = filter (\<lambda>r. r_sid r = sid) rs"

text \<open>Reading the bound values off the parameter array.\<close>

fun text_param :: "sqlval \<Rightarrow> jtext option option" where
  "text_param (SText j) = Some (Some j)"
| "text_param SNull = Some None"
| "text_param v = None"

fun params_sid :: "sqlval list \<Rightarrow> string option" where
  "params_sid [SStr sid] = Some sid"
| "params_sid ps = None"

fun params_expires_sid :: "sqlval list \<Rightarrow> (jsnum \<times> string) option" where
  "params_expires_sid [SNum x, SStr sid] = Some (x, sid)"
| "params_expires_sid ps = None"

fun params_update :: "sqlval list \<Rightarrow> (jsnum \<times> jtext option \<times> string) option" where
  "params_update [SNum x, txt, SStr sid] =
     (case text_param txt of None \<Rightarrow> None | Some d \<Rightarrow> Some (x, d, sid))"
| "params_update ps = None"

fun params_insert :: "sqlval list \<Rightarrow> (string \<times> jsnum \<times> jtext option) option" where
  "params_insert [SStr sid, SNum x, txt] =
     (case text_param txt of None \<Rightarrow> None | Some d \<Rightarrow> Some (sid, x, d))"
| "params_insert ps = None"

definition bad_parameter :: "error + database \<times> rowobj list" where
  "bad_parameter = Inl (SqlError ''bad parameter'')"

fun exec :: "stmt \<Rightarrow> sqlval list \<Rightarrow> database \<Rightarrow> error + database \<times> rowobj list" where
  "exec (SelectData d t s) ps db =
     (case params_sid ps of
        None \<Rightarrow> bad_parameter
      | Some sid \<Rightarrow>
          on_table db t (\<lambda>tb. t_data tb = d \<and> t_session_id tb = s)
            (\<lambda>tb. Inr (db, map (\<lambda>r. DataRow (r_data r)) (matching sid (t_rows tb)))))"
| "exec (CountWhere t s) ps db =
     (case params_sid ps of
        None \<Rightarrow> bad_parameter
      | Some sid \<Rightarrow>
          on_table db t (\<lambda>tb. t_session_id tb = s)
            (\<lambda>tb. Inr (db, [LengthRow (int (length (matching sid (t_rows tb))))])))"
| "exec (UpdateRow t e d s) ps db =
     (case params_update ps of
        None \<Rightarrow> bad_parameter
      | Some (x, txt, sid) \<Rightarrow>
          on_table db t (\<lambda>tb. t_expires tb = e \<and> t_data tb = d \<and> t_session_id tb = s)
            (\<lambda>tb. Inr (db(t \<mapsto> tb\<lparr>t_rows := map (\<lambda>r. if r_sid r = sid
                      then r\<lparr>r_expires := x, r_data := txt\<rparr> else r) (t_rows tb)\<rparr>), [])))"
| "exec (InsertRow t s e d) ps db =
     (case params_insert ps of
        None \<Rightarrow> bad_parameter
      | Some (sid, x, txt) \<Rightarrow>
          on_table db t (\<lambda>tb. t_session_id tb = s \<and> t_expires tb = e \<and> t_data tb = d)
            (\<lambda>tb. if matching sid (t_rows tb) \<noteq> [] then Inl (SqlError ''duplicate key'')
               else Inr (db(t \<mapsto> tb\<lparr>t_rows := t_rows tb
                      @ [\<lparr>r_sid = sid, r_expires = x, r_data = txt\<rparr>]\<rparr>), [])))"
| "exec (DeleteWhere t s) ps db =
     (case params_sid ps of
        None \<Rightarrow> bad_parameter
      | Some sid \<Rightarrow>
          on_table db t (\<lambda>tb. t_session_id tb = s)
            (\<lambda>tb. Inr (db(t \<mapsto> tb\<lparr>t_rows := filter (\<lambda>r. r_sid r \<noteq> sid) (t_rows tb)\<rparr>),
                      [])))"
| "exec (UpdateExpires t e s) ps db =
     (case params_expires_sid ps of
        None \<Rightarrow> bad_parameter
      | Some (x, sid) \<Rightarrow>
          on_table db t (\<lambda>tb. t_expires tb = e \<and> t_session_id tb = s)
            (\<lambda>tb. Inr (db(t \<mapsto> tb\<lparr>t_rows := map (\<lambda>r. if r_sid r = sid
                      then r\<lparr>r_expires := x\<rparr> else r) (t_rows tb)\<rparr>), [])))"
| "exec (CountAll t) ps db =
     (if ps \<noteq> [] then bad_parameter
      else on_table db t (\<lambda>tb. True)
             (\<lambda>tb. Inr (db, [LengthRow (int (length (t_rows tb)))])))"
| "exec (DeleteAll t) ps db =
     (if ps \<noteq> [] then bad_parameter
      else on_table db t (\<lambda>tb. True) (\<lambda>tb. Inr (db(t \<mapsto> tb\<lparr>t_rows := []\<rparr>), [])))"
| "exec (CreateTable t s e d) ps db =
     (if ps \<noteq> [] then bad_parameter
      else case db t of
        Some tb \<Rightarrow> Inl (SqlError ''table exists'')
      | None \<Rightarrow>
          Inr (db(t \<mapsto> \<lparr>t_session_id = s, t_expires = e, t_data = d, t_rows = []\<rparr>), []))"
| "exec (DropTable t) ps db =
     (if ps \<noteq> [] then bad_parameter
      else case db t of
        None \<Rightarrow> Inl (SqlError ''table not found'')
      | Some tb \<Rightarrow> Inr (db(t := None), []))"

text \<open>
  The connection object: its \<^verbatim>\<open>connected\<close> flag, the database it talks to and, for the
  claims about what is sent, the statements it was handed, oldest first.
\<close>

record client =
  connected :: bool
  database_of :: database
  issued :: "(stmt \<times> sqlval list) list"

text \<open>
  \<^verbatim>\<open>client.query(sql, params, callback)\<close>: the statement is recorded, run, and its
  error or rows go to the callback. The file runs one callback to its end before the next
  operation starts; interleavings of several operations are not modelled.
\<close>

definition query :: "stmt \<Rightarrow> sqlval list \<Rightarrow> client \<Rightarrow> client \<times> (error + rowobj list)" where
  "query q ps c =
     (let c' = c\<lparr>issued := issued c @ [(q, ps)]\<rparr> in
      if \<not> connected c then (c', Inl (SqlError ''not connected''))
      else case exec q ps (database_of c) of
             Inl e \<Rightarrow> (c', Inl e)
           | Inr (db', rows) \<Rightarrow> (c'\<lparr>database_of := db'\<rparr>, Inr rows))"

section \<open>The store\<close>

text \<open>
  The options of a store, with the defaults of lines 26 to 37. An option the caller may
  leave out is \<open>None\<close> where it has no default.
\<close>

record columnNames =
  session_id :: string
  expires :: string
  data :: string

record schema =
  tableName :: string
  columnNames :: columnNames

record options =
  expiration :: jsnum
  schema :: schema
  allowDrop :: jsval
  dsn :: "string option"
  database :: "string option"
  user :: "string option"
  password :: "string option"
  host :: "string option"
  port :: "string option"

definition oneDay :: rat where
  "oneDay = 86400"

definition defaultOptions :: options where
  "defaultOptions =
     \<lparr>expiration = Fin (oneDay * 30),
      schema = \<lparr>tableName = ''sessions'',
                columnNames = \<lparr>session_id = ''session_id'', expires = ''expires'',
                               data = ''data''\<rparr>\<rparr>,
      allowDrop = Bool False,
      dsn = None, database = None, user = None, password = None, host = None,
      port = None\<rparr>"

text \<open>
  The options object a caller passes: every option may be missing. \<^verbatim>\<open>extend(true, {},
  defaultOptions, options || {})\<close> copies each option that is there and not
  \<^verbatim>\<open>undefined\<close> over the default.
\<close>

record given_options =
  g_expiration :: "jsnum option"
  g_tableName :: "string option"
  g_session_id :: "string option"
  g_expires :: "string option"
  g_data :: "string option"
  g_allowDrop :: "jsval option"
  g_dsn :: "string option"
  g_database :: "string option"
  g_user :: "string option"
  g_password :: "string option"
  g_host :: "string option"
  g_port :: "string option"

definition no_options :: given_options where
  "no_options =
     \<lparr>g_expiration = None, g_tableName = None, g_session_id = None, g_expires = None,
      g_data = None, g_allowDrop = None, g_dsn = None, g_database = None, g_user = None,
      g_password = None, g_host = None, g_port = None\<rparr>"

definition given :: "'a \<Rightarrow> 'a option \<Rightarrow> 'a" where
  "given d g = (case g of None \<Rightarrow> d | Some v \<Rightarrow> v)"

definition given_some :: "'a option \<Rightarrow> 'a option \<Rightarrow> 'a option" where
  "given_some d g = (case g of None \<Rightarrow> d | Some v \<Rightarrow> Some v)"

definition extend_options :: "options \<Rightarrow> given_options \<Rightarrow> options" where
  "extend_options d g =
     \<lparr>expiration = given (expiration d) (g_expiration g),
      schema =
        \<lparr>tableName = given (tableName (schema d)) (g_tableName g),
         columnNames =
           \<lparr>session_id = given (session_id (columnNames (schema d))) (g_session_id g),
            expires = given (expires (columnNames (schema d))) (g_expires g),
            data = given (data (columnNames (schema d))) (g_data g)\<rparr>\<rparr>,
      allowDrop =
        (case g_allowDrop g of
           None \<Rightarrow> allowDrop d
         | Some Undefined \<Rightarrow> allowDrop d
         | Some v \<Rightarrow> v),
      dsn = given_some (dsn d) (g_dsn g),
      database = given_some (database d) (g_database g),
      user = given_some (user d) (g_user g),
      password = given_some (password d) (g_password g),
      host = given_some (host d) (g_host g),
      port = given_some (port d) (g_port g)\<rparr>"

record store =
  options :: options
  client :: client

text \<open>
  How an operation ends: it throws, it hands an error to its continuation, or it hands
  over its result. Without a continuation the file calls \<^verbatim>\<open>noop\<close>, and what would have
  been handed over is dropped.
\<close>

datatype 'a outcome = Throws error | Failed error | Done 'a

subsection \<open>Construction\<close>

text \<open>
  \<^verbatim>\<open>Db2Store(options, connection)\<close>, lines 94 to 128. The file is in strict mode, so
  \<^verbatim>\<open>this\<close> is an instance when the function is called with \<^verbatim>\<open>new\<close> and \<^verbatim>\<open>undefined\<close>
  when it is called plainly. \<open>openSync\<close> is \<^verbatim>\<open>ibmdb.openSync\<close>: the connection, or the
  error it throws. The result comes with what the call did to the outside: the
  connections it opened and the events it emitted. The call of the base constructor,
  \<^verbatim>\<open>Store.call(this, this.options)\<close>, sets nothing the store reads and is left out.
\<close>

datatype invocation = New | Plain

datatype effect = OpenSync string | Emit string "error option"

definition text_of :: "string option \<Rightarrow> string" where
  "text_of v = (case v of None \<Rightarrow> ''undefined'' | Some s \<Rightarrow> s)"

definition connection_string :: "options \<Rightarrow> string" where
  "connection_string opts =
     (case dsn opts of
        Some (c # cs) \<Rightarrow> c # cs
      | _ \<Rightarrow>
          ''DRIVER={DB2};DATABASE='' @ text_of (database opts) @
          '';UID='' @ text_of (user opts) @
          '';PWD='' @ text_of (password opts) @
          '';HOSTNAME='' @ text_of (host opts) @
          '';port='' @ text_of (port opts) @
          '';PROTOCOL=TCPIP'')"

definition Db2Store ::
  "(string \<Rightarrow> error + client) \<Rightarrow> invocation \<Rightarrow> given_options option \<Rightarrow> client option
     \<Rightarrow> (error + store) \<times> effect list" where
  "Db2Store openSync how opts connection =
     (case how of
        Plain \<Rightarrow> (Inl (TypeError ''Cannot call Db2Store constructor as a function''), [])
      | New \<Rightarrow>
          let these = extend_options defaultOptions (case opts of None \<Rightarrow> no_options | Some g \<Rightarrow> g);
              (handle, effects) =
                (case connection of
                   Some c \<Rightarrow> (Some c, [])
                 | None \<Rightarrow>
                     (case openSync (connection_string these) of
                        Inr c \<Rightarrow>
                          (Some c, [OpenSync (connection_string these), Emit ''connect'' None])
                      | Inl err \<Rightarrow>
                          (None, [OpenSync (connection_string these),
                                  Emit ''disconnect'' (Some err)])))
          in case handle of
               None \<Rightarrow> (Inl AssertionError, effects)
             | Some c \<Rightarrow>
                 if connected c then (Inr \<lparr>options = these, client = c\<rparr>, effects)
                 else (Inl AssertionError, effects))"

subsection \<open>Operations\<close>

text \<open>
  Each operation takes the store and answers with the store afterwards and the way it
  ended. \<open>run\<close> is \<^verbatim>\<open>store.client.query\<close> on the store's connection.
\<close>

definition run :: "store \<Rightarrow> stmt \<Rightarrow> sqlval list \<Rightarrow> store \<times> (error + rowobj list)" where
  "run st q ps = (case query q ps (client st) of (c, r) \<Rightarrow> (st\<lparr>client := c\<rparr>, r))"

abbreviation names :: "store \<Rightarrow> columnNames" where
  "names st \<equiv> columnNames (schema (options st))"

abbreviation table_name :: "store \<Rightarrow> string" where
  "table_name st \<equiv> tableName (schema (options st))"

text \<open>
  \<^verbatim>\<open>JSON.parse(rows[0].data)\<close>: a \<^verbatim>\<open>NULL\<close> column reads as \<^verbatim>\<open>null\<close>, which parses to
  \<^verbatim>\<open>null\<close>; a row without the property gives \<^verbatim>\<open>undefined\<close>, which does not parse.
\<close>

fun parse_data :: "rowobj \<Rightarrow> error + jsval" where
  "parse_data (DataRow (Some txt)) = JSON_parse txt"
| "parse_data (DataRow None) = Inr Null"
| "parse_data (LengthRow n) = Inl SyntaxError"

text \<open>\<^verbatim>\<open>get(sid, fn)\<close>, lines 144 to 176.\<close>

definition get :: "store \<Rightarrow> string \<Rightarrow> store \<times> jsval outcome" where
  "get st sid =
     (let sql = SelectData (data (names st)) (table_name st) (session_id (names st)) in
      if \<not> connected (client st) then (st, Throws AssertionError)
      else case run st sql [SStr sid] of
             (st', Inl err) \<Rightarrow> (st', Failed err)
           | (st', Inr rows) \<Rightarrow>
               (case rows of
                  [] \<Rightarrow> (st', Done Null)
                | r # rs \<Rightarrow>
                    (case parse_data r of
                       Inl error \<Rightarrow>
                         (st', Failed (Error (''Failed to parse data for session: '' @ sid)))
                     | Inr result \<Rightarrow> (st', Done result))))"

text \<open>
  \<^verbatim>\<open>!!rows[0] ? rows[0].length : 0\<close> compared with zero, and the same count as
  \<^verbatim>\<open>length\<close> hands it over.
\<close>

fun count_positive :: "rowobj list \<Rightarrow> bool" where
  "count_positive [] = False"
| "count_positive (LengthRow n # rs) = (0 < n)"
| "count_positive (DataRow d # rs) = False"

fun count_value :: "rowobj list \<Rightarrow> jsval" where
  "count_value [] = Num (Fin 0)"
| "count_value (LengthRow n # rs) = Num (Fin (of_int n))"
| "count_value (DataRow d # rs) = Undefined"

definition bind_text :: "jtext option \<Rightarrow> sqlval" where
  "bind_text j = (case j of None \<Rightarrow> SNull | Some txt \<Rightarrow> SText txt)"

text \<open>\<^verbatim>\<open>set(sid, sess, fn)\<close>, lines 187 to 249.\<close>

definition set_session ::
  "platform \<Rightarrow> int \<Rightarrow> store \<Rightarrow> string \<Rightarrow> jsval \<Rightarrow> store \<times> unit outcome" where
  "set_session p now st sid sess =
     (case getExpires p now sess (expiration (options st)) of
        Inl thrown \<Rightarrow> (st, Throws thrown)
      | Inr secs \<Rightarrow>
          (case JSON_stringify p sess of
             Inl err \<Rightarrow> (st, Failed err)
           | Inr jsess \<Rightarrow>
               if \<not> connected (client st) then (st, Throws AssertionError)
               else case run st (CountWhere (table_name st) (session_id (names st)))
                             [SStr sid] of
                      (st1, Inl err) \<Rightarrow> (st1, Failed err)
                    | (st1, Inr rows) \<Rightarrow>
                        let (sql, params) =
                              (if count_positive rows
                               then (UpdateRow (table_name st) (expires (names st))
                                       (data (names st)) (session_id (names st)),
                                     [SNum secs, bind_text jsess, SStr sid])
                               else (InsertRow (table_name st) (session_id (names st))
                                       (expires (names st)) (data (names st)),
                                     [SStr sid, SNum secs, bind_text jsess]))
                        in case run st1 sql params of
                             (st2, Inl err) \<Rightarrow> (st2, Failed err)
                           | (st2, Inr done) \<Rightarrow> (st2, Done ())))"

text \<open>\<^verbatim>\<open>destroy(sid, fn)\<close>, lines 258 to 278.\<close>

definition destroy :: "store \<Rightarrow> string \<Rightarrow> store \<times> unit outcome" where
  "destroy st sid =
     (if \<not> connected (client st) then (st, Throws AssertionError)
      else case run st (DeleteWhere (table_name st) (session_id (names st))) [SStr sid] of
             (st', Inl err) \<Rightarrow> (st', Failed err)
           | (st', Inr done) \<Rightarrow> (st', Done ()))"

text \<open>\<^verbatim>\<open>touch(sid, sess, fn)\<close>, lines 289 to 314.\<close>

definition touch ::
  "platform \<Rightarrow> int \<Rightarrow> store \<Rightarrow> string \<Rightarrow> jsval \<Rightarrow> store \<times> unit outcome" where
  "touch p now st sid sess =
     (case getExpires p now sess (expiration (options st)) of
        Inl thrown \<Rightarrow> (st, Throws thrown)
      | Inr secs \<Rightarrow>
          if \<not> connected (client st) then (st, Throws AssertionError)
          else case run st (UpdateExpires (table_name st) (expires (names st))
                              (session_id (names st))) [SNum secs, SStr sid] of
                 (st', Inl err) \<Rightarrow> (st', Failed err)
               | (st', Inr done) \<Rightarrow> (st', Done ()))"

text \<open>\<^verbatim>\<open>length(fn)\<close>, lines 323 to 344.\<close>

definition length_sessions :: "store \<Rightarrow> store \<times> jsval outcome" where
  "length_sessions st =
     (if \<not> connected (client st) then (st, Throws AssertionError)
      else case run st (CountAll (table_name st)) [] of
             (st', Inl err) \<Rightarrow> (st', Failed err)
           | (st', Inr rows) \<Rightarrow> (st', Done (count_value rows)))"

text \<open>\<^verbatim>\<open>clear(fn)\<close>, lines 353 to 371.\<close>

definition clear :: "store \<Rightarrow> store \<times> unit outcome" where
  "clear st =
     (if \<not> connected (client st) then (st, Throws AssertionError)
      else case run st (DeleteAll (table_name st)) [] of
             (st', Inl err) \<Rightarrow> (st', Failed err)
           | (st', Inr done) \<Rightarrow> (st', Done ()))"

text \<open>\<^verbatim>\<open>createDatabaseTable(fn)\<close>, lines 414 to 438.\<close>

definition createDatabaseTable :: "store \<Rightarrow> store \<times> unit outcome" where
  "createDatabaseTable st =
     (if \<not> connected (client st) then (st, Throws AssertionError)
      else case run st (CreateTable (table_name st) (session_id (names st))
                          (expires (names st)) (data (names st))) [] of
             (st', Inl err) \<Rightarrow> (st', Failed err)
           | (st', Inr done) \<Rightarrow> (st', Done ()))"

text \<open>\<^verbatim>\<open>dropDatabaseTable(fn)\<close>, lines 447 to 473.\<close>

definition dropDatabaseTable :: "store \<Rightarrow> store \<times> unit outcome" where
  "dropDatabaseTable st =
     (if \<not> truthy (allowDrop (options st))
      then (st, Failed (Error (''Dropping session table not allowed by config. '' @
                               ''Set allowDrop: true in your config to enable this.'')))
      else if \<not> connected (client st) then (st, Throws AssertionError)
      else case run st (DropTable (table_name st)) [] of
             (st', Inl err) \<Rightarrow> (st', Failed err)
           | (st', Inr done) \<Rightarrow> (st', Done ()))"

subsection \<open>Reading the table\<close>

text \<open>
  The rows of the store's table, for stating what an operation left there: the table is
  ready when it exists under the configured name with the configured columns.
\<close>

definition table_ready :: "store \<Rightarrow> bool" where
  "table_ready st =
     (case database_of (client st) (table_name st) of
        None \<Rightarrow> False
      | Some tb \<Rightarrow>
          t_session_id tb = session_id (names st) \<and> t_expires tb = expires (names st)
          \<and> t_data tb = data (names st))"

definition rows_of :: "store \<Rightarrow> row list" where
  "rows_of st =
     (case database_of (client st) (table_name st) of None \<Rightarrow> [] | Some tb \<Rightarrow> t_rows tb)"

definition stored :: "store \<Rightarrow> string \<Rightarrow> row list" where
  "stored st sid = matching sid (rows_of st)"

subsection \<open>Example data\<close>

text \<open>
  A platform, a store and a closed store to run the operations on. The platform's date
  parser understands nothing, so that a string and whatever an array, a function or an
  object is converted to give an invalid date, and its ISO string is right for the two
  time values the examples serialize, 1499 and 5000. The store has the default options and a live
  connection to a database whose \<^verbatim>\<open>sessions\<close> table holds one row, with a data column
  that is not JSON.
\<close>

definition example_platform :: platform where
  "example_platform =
     \<lparr>Date_parse = (\<lambda>s. None),
      Date_convert = (\<lambda>v. Inr None),
      toISOString = (\<lambda>t. if t = 1499 then ''1970-01-01T00:00:01.499Z''
                         else ''1970-01-01T00:00:05.000Z'')\<rparr>"

definition example_table :: table where
  "example_table =
     \<lparr>t_session_id = ''session_id'', t_expires = ''expires'', t_data = ''data'',
      t_rows = [\<lparr>r_sid = ''bad'', r_expires = Fin 7, r_data = Some Garbled\<rparr>]\<rparr>"

definition example_store :: store where
  "example_store =
     \<lparr>options = defaultOptions,
      client = \<lparr>connected = True, database_of = [''sessions'' \<mapsto> example_table],
                issued = []\<rparr>\<rparr>"

definition closed_store :: store where
  "closed_store = example_store\<lparr>client := (client example_store)\<lparr>connected := False\<rparr>\<rparr>"

section \<open>Properties\<close>

subsection \<open>Numbers, JSON and the expiry\<close>

lemma round_ms: "round (of_int t / 1000 :: rat) = (t + 500) div 1000"
proof -
  have "of_int t / 1000 + 1 / 2 = (of_int (t + 500) / of_int 1000 :: rat)"
    by (simp add: field_simps)
  then show ?thesis
    unfolding round_def by (simp only: floor_divide_of_int_eq)
qed

lemma whole_seconds_ms:
  "Math_round (js_div (getTime (Some t)) 1000) = Fin (of_int ((t + 500) div 1000))"
  by (simp add: round_ms)

text \<open>The exponent \<open>floor_log2\<close> finds is the one it should.\<close>

lemma pow2_powi: "pow2 e = 2 powi e"
  by (simp add: pow2_def power_int_def field_simps)

lemma pow2_pos: "0 < pow2 e"
  by (simp add: pow2_def)

lemma pow2_diff: "pow2 (a - b) = pow2 a / pow2 b"
  by (simp add: pow2_powi power_int_diff)

lemma bitlen_pow2_bounds:
  assumes "0 < a"
  shows "pow2 (bitlen a - 1) \<le> of_int a" and "of_int a < pow2 (bitlen a)"
proof -
  from bitlen_bounds[OF assms]
  have l: "(2::int) ^ nat (bitlen a - 1) \<le> a" and u: "a < 2 ^ nat (bitlen a)" by simp_all
  have "bitlen a \<noteq> 0" using u assms by auto
  with bitlen_nonneg[of a] have n: "0 \<le> bitlen a - 1" "0 \<le> bitlen a" by simp_all
  have "(of_int (2 ^ nat (bitlen a - 1)) :: rat) \<le> of_int a"
    using l by (simp only: of_int_le_iff)
  then show "pow2 (bitlen a - 1) \<le> of_int a" using n by (simp add: pow2_def)
  have "(of_int a :: rat) < of_int (2 ^ nat (bitlen a))"
    using u by (simp only: of_int_less_iff)
  then show "of_int a < pow2 (bitlen a)" using n by (simp add: pow2_def)
qed

lemma floor_log2_bounds:
  assumes "0 < x"
  shows "pow2 (floor_log2 x) \<le> x \<and> x < pow2 (floor_log2 x + 1)"
proof -
  obtain a b where q: "quotient_of x = (a, b)" by (cases "quotient_of x")
  then have b: "0 < b" and x: "x = of_int a / of_int b"
    using quotient_of_denom_pos[OF q] quotient_of_div[OF q] by simp_all
  from assms x b have a: "0 < a" by (simp add: zero_less_divide_iff)
  define d where "d = bitlen a - bitlen b"
  note A = bitlen_pow2_bounds[OF a] and B = bitlen_pow2_bounds[OF b]
  have "pow2 (bitlen a - 1) / pow2 (bitlen b) \<le> of_int a / of_int b"
    using A(1) B(2) b pow2_pos[of "bitlen a - 1"] by (intro frac_le) simp_all
  then have low: "pow2 (d - 1) \<le> x"
    unfolding x d_def using pow2_diff[of "bitlen a - 1" "bitlen b"] by (simp add: algebra_simps)
  have "of_int a / of_int b < pow2 (bitlen a) / pow2 (bitlen b - 1)"
    using A(2) B(1) a pow2_pos[of "bitlen b - 1"] by (intro frac_less) simp_all
  then have up: "x < pow2 (d + 1)"
    unfolding x d_def using pow2_diff[of "bitlen a" "bitlen b - 1"] by (simp add: algebra_simps)
  have mono: "pow2 (d - 1 + 1) = pow2 d" by simp
  show ?thesis
  proof (cases "pow2 d \<le> x")
    case True
    with up show ?thesis by (simp add: floor_log2_def q d_def[symmetric] Let_def)
  next
    case False
    with low show ?thesis by (simp add: floor_log2_def q d_def[symmetric] Let_def)
  qed
qed

text \<open>An integer of at most \<open>2^53\<close> in size is a double, so a sum that is one is exact.\<close>

lemma round_half_even_int: "round_half_even (of_int k) = k"
  by (simp add: round_half_even_def)

lemma floor_log2_int:
  assumes "0 < m"
  shows "floor_log2 (of_int m) = bitlen m - 1"
    and "0 \<le> bitlen m - 1"
    and "(2::int) ^ nat (bitlen m - 1) \<le> m"
proof -
  from bitlen_bounds[OF assms] show b: "(2::int) ^ nat (bitlen m - 1) \<le> m" by simp
  have "bitlen m \<noteq> 0" using bitlen_bounds[OF assms] assms by auto
  with bitlen_nonneg[of m] show n: "0 \<le> bitlen m - 1" by simp
  have "bitlen 1 = 1" by (simp add: bitlen_alt_def)
  moreover have "pow2 (bitlen m - 1) \<le> of_int m"
  proof -
    have "(of_int (2 ^ nat (bitlen m - 1)) :: rat) \<le> of_int m"
      using b by (simp only: of_int_le_iff)
    then show ?thesis using n by (simp add: pow2_def)
  qed
  ultimately show "floor_log2 (of_int m) = bitlen m - 1"
    by (simp add: floor_log2_def Let_def)
qed

lemma to_double_int:
  assumes "\<bar>n\<bar> \<le> 9007199254740992"
  shows "to_double (of_int n) = Fin (of_int n)"
proof (cases "n = 0")
  case True
  then show ?thesis by (simp add: to_double_def)
next
  case False
  define m where "m = \<bar>n\<bar>"
  define d where "d = bitlen m - 1"
  have m: "0 < m" "m \<le> 2 ^ 53" using False assms by (simp_all add: m_def)
  note fl = floor_log2_int[OF m(1), folded d_def]
  have size: "\<bar>of_int n :: rat\<bar> = of_int m" by (simp add: m_def)
  have p: "(2::int) ^ nat d \<le> 2 ^ 53" using fl(3) m(2) by (rule order_trans)
  have "nat d \<le> 53" by (rule power_le_imp_le_exp[OF _ p]) simp
  then have d53: "d \<le> 53" by simp
  obtain k :: int where k: "(of_int n :: rat) / pow2 (d - 52) = of_int k"
  proof (cases "d \<le> 52")
    case True
    then have "pow2 (d - 52) = 1 / 2 ^ nat (52 - d)"
      by (cases "d = 52") (simp_all add: pow2_def)
    then have "(of_int n :: rat) / pow2 (d - 52) = of_int (n * 2 ^ nat (52 - d))"
      by simp
    with that show ?thesis by blast
  next
    case False
    with d53 have d: "d = 53" by simp
    with fl(3) m(2) have "m = 2 ^ 53" by simp
    then have "n = 2 ^ 53 \<or> n = - (2 ^ 53)" by (auto simp: m_def)
    then have "(of_int n :: rat) / pow2 (d - 52) = of_int (n div 2)"
      using d by (auto simp: pow2_def)
    with that show ?thesis by blast
  qed
  have nz: "pow2 (d - 52) \<noteq> 0" by (simp add: pow2_def)
  have restored: "of_int k * pow2 (d - 52) = (of_int n :: rat)"
    using k nz by (simp add: field_simps)
  have small: "\<not> pow2 1024 \<le> \<bar>of_int n :: rat\<bar>"
  proof -
    have "(of_int m :: rat) \<le> of_int (2 ^ 53)" using m(2) by (simp only: of_int_le_iff)
    moreover have "(of_int (2 ^ 53) :: rat) < pow2 1024" by (simp add: pow2_def)
    ultimately show ?thesis unfolding size by simp
  qed
  have e: "max (floor_log2 \<bar>of_int n :: rat\<bar>) (- 1022) = d"
    unfolding size fl(1) using fl(2) by simp
  show ?thesis
    using False small
    by (simp add: to_double_def Let_def e k restored round_half_even_int del: of_int_abs)
qed

lemma example_sum: "to_double 3592000 = Fin 3592000"
  using to_double_int[of 3592000] by simp

lemma CreateDataProperty_fresh:
  "k \<notin> fst ` set acc \<Longrightarrow> CreateDataProperty k v acc = acc @ [(k, v)]"
  by (induction acc) auto

text \<open>
  Serializing a value of plain JSON succeeds, and the document stands for the value
  again. The three statements follow the three mutually recursive serializers; the one
  for objects is stated for any properties already built, since the parser appends to
  them.
\<close>

lemma serialize_roundtrip:
  "(plain_json v \<longrightarrow>
      (\<exists>j. SerializeJSONProperty p v = Inr (Some j) \<and> json_value j = v))"
  "((\<forall>x \<in> set xs. plain_json x) \<longrightarrow>
      (\<exists>js. SerializeJSONArray p xs = Inr js \<and> json_elements js = xs))"
  "(distinct (map fst ps) \<and> (\<forall>kv \<in> set ps. plain_json (snd kv)) \<longrightarrow>
      (\<exists>ms. SerializeJSONObject p ps = Inr ms \<and>
         (\<forall>acc. fst ` set acc \<inter> fst ` set ps = {} \<longrightarrow> json_members ms acc = acc @ ps)))"
proof (induction p v and p xs and p ps
    rule: SerializeJSONProperty_SerializeJSONArray_SerializeJSONObject.induct)
  case (5 p n)
  then show ?case by (cases n) auto
next
  case (9 p xs)
  then show ?case by auto
next
  case (10 p ps)
  then show ?case by fastforce
next
  case (12 p x xs)
  then show ?case by auto
next
  case (14 p k v ps)
  show ?case
  proof (intro impI)
    assume h: "distinct (map fst ((k, v) # ps)) \<and>
      (\<forall>kv \<in> set ((k, v) # ps). plain_json (snd kv))"
    then obtain j where j: "SerializeJSONProperty p v = Inr (Some j)" "json_value j = v"
      using 14(1) by auto
    from h obtain ms where ms: "SerializeJSONObject p ps = Inr ms"
      "\<forall>acc. fst ` set acc \<inter> fst ` set ps = {} \<longrightarrow> json_members ms acc = acc @ ps"
      using 14(2)[OF j(1)] by auto
    have "json_members ((k, j) # ms) acc = acc @ (k, v) # ps"
      if d: "fst ` set acc \<inter> fst ` set ((k, v) # ps) = {}" for acc
    proof -
      from d have fresh: "k \<notin> fst ` set acc" by auto
      from d h have "fst ` set (acc @ [(k, v)]) \<inter> fst ` set ps = {}" by auto
      with ms(2) have "json_members ms (acc @ [(k, v)]) = (acc @ [(k, v)]) @ ps" by blast
      with fresh j(2) show ?thesis by (simp add: CreateDataProperty_fresh)
    qed
    with j ms(1) show "\<exists>ms'. SerializeJSONObject p ((k, v) # ps) = Inr ms' \<and>
         (\<forall>acc. fst ` set acc \<inter> fst ` set ((k, v) # ps) = {} \<longrightarrow>
            json_members ms' acc = acc @ (k, v) # ps)"
      by simp
  qed
qed auto

lemma stringify_parse:
  assumes "plain_json v"
  shows "\<exists>j. JSON_stringify p v = Inr (Some j) \<and> JSON_parse j = Inr v"
  using serialize_roundtrip(1)[of v p] assms by (auto simp: JSON_stringify_def)

lemma getExpires_eq:
  "get_prop sess ''cookie'' = Inr c \<Longrightarrow>
   getExpires p now sess x =
     (case to_Date p (if truthy (pick_expires c) then pick_expires c
                      else Num (js_add (Fin (of_int now)) x)) of
        Inl e \<Rightarrow> Inl e
      | Inr d \<Rightarrow> Inr (Math_round (js_div (getTime d) 1000)))"
  by (simp add: getExpires_def Let_def)

subsection \<open>What the operations do to a ready table\<close>

lemma text_param_bind: "text_param (bind_text j) = Some j"
  by (cases j) (auto simp: bind_text_def)

lemma table_readyE:
  assumes "table_ready st"
  obtains tb where "database_of (client st) (table_name st) = Some tb"
    "t_session_id tb = session_id (names st)" "t_expires tb = expires (names st)"
    "t_data tb = data (names st)" "rows_of st = t_rows tb"
  using assms by (auto simp: table_ready_def rows_of_def split: option.splits)

lemma example_ready: "connected (client example_store)" "table_ready example_store"
  by (simp_all add: example_store_def table_ready_def defaultOptions_def example_table_def)

lemma get_ready:
  assumes "connected (client st)" "table_ready st"
  shows "snd (get st sid) =
           (case stored st sid of
              [] \<Rightarrow> Done Null
            | r # rs \<Rightarrow>
                (case parse_data (DataRow (r_data r)) of
                   Inl e \<Rightarrow> Failed (Error (''Failed to parse data for session: '' @ sid))
                 | Inr v \<Rightarrow> Done v))"
proof -
  from assms(2) obtain tb where tb: "database_of (client st) (table_name st) = Some tb"
    "t_session_id tb = session_id (names st)" "t_expires tb = expires (names st)"
    "t_data tb = data (names st)" "rows_of st = t_rows tb"
    by (rule table_readyE)
  show ?thesis
    using assms(1) tb
    by (simp add: get_def run_def query_def on_table_def stored_def
        split: list.splits sum.splits)
qed

lemma set_session_ready:
  assumes "connected (client st)" "table_ready st"
    and "getExpires p now sess (expiration (options st)) = Inr secs"
    and "JSON_stringify p sess = Inr jsess"
  shows "snd (set_session p now st sid sess) = Done ()"
    and "options (fst (set_session p now st sid sess)) = options st"
    and "connected (client (fst (set_session p now st sid sess)))"
    and "table_ready (fst (set_session p now st sid sess))"
    and "rows_of (fst (set_session p now st sid sess)) =
           (if stored st sid = []
            then rows_of st @ [\<lparr>r_sid = sid, r_expires = secs, r_data = jsess\<rparr>]
            else map (\<lambda>r. if r_sid r = sid then r\<lparr>r_expires := secs, r_data := jsess\<rparr> else r)
                   (rows_of st))"
proof -
  from assms(2) obtain tb where tb: "database_of (client st) (table_name st) = Some tb"
    "t_session_id tb = session_id (names st)" "t_expires tb = expires (names st)"
    "t_data tb = data (names st)" "rows_of st = t_rows tb"
    by (rule table_readyE)
  note defs = set_session_def run_def query_def on_table_def stored_def text_param_bind
    table_ready_def rows_of_def
  show "snd (set_session p now st sid sess) = Done ()"
    using assms(1,3,4) tb by (simp add: defs)
  show "options (fst (set_session p now st sid sess)) = options st"
    using assms(1,3,4) tb by (simp add: defs)
  show "connected (client (fst (set_session p now st sid sess)))"
    using assms(1,3,4) tb by (simp add: defs)
  show "table_ready (fst (set_session p now st sid sess))"
    using assms(1,3,4) tb by (simp add: defs)
  show "rows_of (fst (set_session p now st sid sess)) =
           (if stored st sid = []
            then rows_of st @ [\<lparr>r_sid = sid, r_expires = secs, r_data = jsess\<rparr>]
            else map (\<lambda>r. if r_sid r = sid then r\<lparr>r_expires := secs, r_data := jsess\<rparr> else r)
                   (rows_of st))"
    using assms(1,3,4) tb by (simp add: defs)
qed

lemma stored_after_set:
  assumes "connected (client st)" "table_ready st"
    and "getExpires p now sess (expiration (options st)) = Inr secs"
    and "JSON_stringify p sess = Inr jsess"
  shows "stored (fst (set_session p now st sid sess)) sid =
           (if stored st sid = [] then [\<lparr>r_sid = sid, r_expires = secs, r_data = jsess\<rparr>]
            else map (\<lambda>r. r\<lparr>r_expires := secs, r_data := jsess\<rparr>) (stored st sid))"
proof -
  have f: "filter (\<lambda>r. r_sid r = sid)
             (map (\<lambda>r. if r_sid r = sid then r\<lparr>r_expires := secs, r_data := jsess\<rparr> else r) rs)
           = map (\<lambda>r. r\<lparr>r_expires := secs, r_data := jsess\<rparr>) (filter (\<lambda>r. r_sid r = sid) rs)"
    for rs by (induction rs) auto
  show ?thesis
    unfolding stored_def[of "fst (set_session p now st sid sess)"]
      set_session_ready(5)[OF assms]
    by (simp add: stored_def matching_def f)
qed

lemma touch_ready:
  assumes "connected (client st)" "table_ready st"
    and "getExpires p now sess (expiration (options st)) = Inr secs"
  shows "snd (touch p now st sid sess) = Done ()"
    and "options (fst (touch p now st sid sess)) = options st"
    and "connected (client (fst (touch p now st sid sess)))"
    and "table_ready (fst (touch p now st sid sess))"
    and "rows_of (fst (touch p now st sid sess)) =
           map (\<lambda>r. if r_sid r = sid then r\<lparr>r_expires := secs\<rparr> else r) (rows_of st)"
proof -
  from assms(2) obtain tb where tb: "database_of (client st) (table_name st) = Some tb"
    "t_session_id tb = session_id (names st)" "t_expires tb = expires (names st)"
    "t_data tb = data (names st)" "rows_of st = t_rows tb"
    by (rule table_readyE)
  note defs = touch_def run_def query_def on_table_def table_ready_def rows_of_def
  show "snd (touch p now st sid sess) = Done ()"
    using assms(1,3) tb by (simp add: defs)
  show "options (fst (touch p now st sid sess)) = options st"
    using assms(1,3) tb by (simp add: defs)
  show "connected (client (fst (touch p now st sid sess)))"
    using assms(1,3) tb by (simp add: defs)
  show "table_ready (fst (touch p now st sid sess))"
    using assms(1,3) tb by (simp add: defs)
  show "rows_of (fst (touch p now st sid sess)) =
           map (\<lambda>r. if r_sid r = sid then r\<lparr>r_expires := secs\<rparr> else r) (rows_of st)"
    using assms(1,3) tb by (simp add: defs)
qed

lemma stored_after_touch:
  assumes "connected (client st)" "table_ready st"
    and "getExpires p now sess (expiration (options st)) = Inr secs"
  shows "stored (fst (touch p now st sid sess)) sid' =
           (if sid' = sid then map (\<lambda>r. r\<lparr>r_expires := secs\<rparr>) (stored st sid)
            else stored st sid')"
proof -
  have f: "filter (\<lambda>r. r_sid r = sid')
             (map (\<lambda>r. if r_sid r = sid then r\<lparr>r_expires := secs\<rparr> else r) rs)
           = (if sid' = sid then map (\<lambda>r. r\<lparr>r_expires := secs\<rparr>) (filter (\<lambda>r. r_sid r = sid) rs)
              else filter (\<lambda>r. r_sid r = sid') rs)"
    for rs by (induction rs) auto
  show ?thesis
    unfolding stored_def[of "fst (touch p now st sid sess)"] touch_ready(5)[OF assms]
    by (simp add: stored_def matching_def f)
qed

lemma length_ready:
  assumes "connected (client st)" "table_ready st"
  shows "snd (length_sessions st) = Done (Num (Fin (of_int (int (length (rows_of st))))))"
proof -
  from assms(2) obtain tb where tb: "database_of (client st) (table_name st) = Some tb"
    "rows_of st = t_rows tb"
    by (rule table_readyE)
  show ?thesis using assms(1) tb
    by (simp add: length_sessions_def run_def query_def on_table_def)
qed

lemma touch_absent_database:
  assumes "connected (client st)" "table_ready st"
    and "getExpires p now sess (expiration (options st)) = Inr secs"
    and "stored st sid = []"
  shows "database_of (client (fst (touch p now st sid sess))) = database_of (client st)"
proof -
  from assms(2) obtain tb where tb: "database_of (client st) (table_name st) = Some tb"
    "t_session_id tb = session_id (names st)" "t_expires tb = expires (names st)"
    "t_data tb = data (names st)" "rows_of st = t_rows tb"
    by (rule table_readyE)
  from assms(4) tb(5) have "\<forall>r \<in> set (t_rows tb). r_sid r \<noteq> sid"
    by (auto simp: stored_def matching_def filter_empty_conv)
  then have "map (\<lambda>r. if r_sid r = sid then r\<lparr>r_expires := secs\<rparr> else r) (t_rows tb)
             = t_rows tb"
    by (simp add: map_idI)
  then show ?thesis
    using assms(1,3) tb
    by (simp add: touch_def run_def query_def on_table_def fun_upd_idem)
qed

subsection \<open>The round trip\<close>

lemma get_after_set:
  assumes "connected (client st)" and "table_ready st"
    and "plain_json s"
    and secs: "getExpires p now s (expiration (options st)) = Inr secs"
  shows "snd (set_session p now st sid s) = Done ()"
    and "snd (get (fst (set_session p now st sid s)) sid) = Done s"
proof -
  obtain j where j: "JSON_stringify p s = Inr (Some j)" "JSON_parse j = Inr s"
    using stringify_parse[OF assms(3)] by blast
  let ?st = "fst (set_session p now st sid s)"
  note ready = set_session_ready[OF assms(1,2) secs j(1), of sid]
  have "stored ?st sid \<noteq> []" "\<forall>r \<in> set (stored ?st sid). r_data r = Some j"
    by (auto simp: stored_after_set[OF assms(1,2) secs j(1)])
  then obtain r rs where r: "stored ?st sid = r # rs" "r_data r = Some j"
    by (cases "stored ?st sid") auto
  show "snd (get ?st sid) = Done s"
    unfolding get_ready[OF ready(3,4)] using r j(2) by simp
  show "snd (set_session p now st sid s) = Done ()" by (rule ready(1))
qed

text \<open>
  C1. As stated the claim covers every session that \<^verbatim>\<open>JSON.stringify\<close> accepts, and it
  fails on the commonest of them: a session whose cookie carries its expiry as a
  \<^verbatim>\<open>Date\<close> is written with the date's ISO string and read back with that string, which
  is not the date. What holds: on a store with a live connection and its table in place,
  for every session object \<open>s\<close> made of plain JSON values whose expiry can be computed
  (\<^verbatim>\<open>getExpires\<close> returns: the expiry hint of its cookie, if there is a truthy one,
  converts to a date without throwing) and every id, \<^verbatim>\<open>set(id, s)\<close> succeeds and
  \<^verbatim>\<open>get(id)\<close> then returns \<open>s\<close> itself.
\<close>

theorem set_then_get:
  assumes "connected (client st)" and "table_ready st"
    and "is_object s" and "plain_json s"
    and "getExpires p now s (expiration (options st)) = Inr secs"
  shows "snd (set_session p now st sid s) = Done () \<and>
         snd (get (fst (set_session p now st sid s)) sid) = Done s"
  using get_after_set[OF assms(1,2,4,5)] by simp

theorem set_then_get_witness:
  "connected (client example_store) \<and> table_ready example_store \<and>
   is_object (Obj [(''cookie'', Obj [(''maxAge'', Num (Fin 2000))]), (''name'', Str ''tj'')]) \<and>
   plain_json (Obj [(''cookie'', Obj [(''maxAge'', Num (Fin 2000))]), (''name'', Str ''tj'')]) \<and>
   getExpires example_platform 1000000
       (Obj [(''cookie'', Obj [(''maxAge'', Num (Fin 2000))]), (''name'', Str ''tj'')])
       (expiration (options example_store)) = Inr (Fin 3592) \<and>
   snd (set_session example_platform 1000000 example_store ''sid1''
       (Obj [(''cookie'', Obj [(''maxAge'', Num (Fin 2000))]), (''name'', Str ''tj'')]))
     = Done () \<and>
   snd (get (fst (set_session example_platform 1000000 example_store ''sid1''
       (Obj [(''cookie'', Obj [(''maxAge'', Num (Fin 2000))]), (''name'', Str ''tj'')])))
     ''sid1'')
     = Done (Obj [(''cookie'', Obj [(''maxAge'', Num (Fin 2000))]), (''name'', Str ''tj'')])"
proof -
  let ?s = "Obj [(''cookie'', Obj [(''maxAge'', Num (Fin 2000))]), (''name'', Str ''tj'')]"
  have h: "connected (client example_store)" "table_ready example_store"
    "is_object ?s" "plain_json ?s"
    by (simp_all add: example_ready)
  have e: "getExpires example_platform 1000000 ?s (expiration (options example_store))
      = Inr (Fin 3592)"
    by (simp add: getExpires_def pick_expires_def to_Date_def example_store_def
        defaultOptions_def oneDay_def example_sum)
  show ?thesis
    using set_then_get[OF h e, of "''sid1''"] h e by simp
qed

lemma date_session_expires:
  "getExpires example_platform 1000000
     (Obj [(''cookie'', Obj [(''expires'', DateV (Some 5000))])]) (expiration (options example_store))
   = Inr (Fin 5)"
  by (simp add: getExpires_def pick_expires_def to_Date_def)

lemma date_session_text:
  "JSON_stringify example_platform (Obj [(''cookie'', Obj [(''expires'', DateV (Some 5000))])])
   = Inr (Some (Spells (JObj [(''cookie'', JObj [(''expires'', JStr ''1970-01-01T00:00:05.000Z'')])])))"
  by (simp add: JSON_stringify_def example_platform_def)

theorem set_then_get_date_counterexample:
  "JSON_stringify example_platform (Obj [(''cookie'', Obj [(''expires'', DateV (Some 5000))])])
     = Inr (Some (Spells (JObj [(''cookie'',
         JObj [(''expires'', JStr ''1970-01-01T00:00:05.000Z'')])]))) \<and>
   snd (set_session example_platform 1000000 example_store ''sid1''
          (Obj [(''cookie'', Obj [(''expires'', DateV (Some 5000))])])) = Done () \<and>
   snd (get (fst (set_session example_platform 1000000 example_store ''sid1''
          (Obj [(''cookie'', Obj [(''expires'', DateV (Some 5000))])]))) ''sid1'')
     = Done (Obj [(''cookie'', Obj [(''expires'', Str ''1970-01-01T00:00:05.000Z'')])]) \<and>
   Obj [(''cookie'', Obj [(''expires'', Str ''1970-01-01T00:00:05.000Z'')])]
     \<noteq> Obj [(''cookie'', Obj [(''expires'', DateV (Some 5000))])]"
proof -
  let ?s = "Obj [(''cookie'', Obj [(''expires'', DateV (Some 5000))])]"
  let ?st = "fst (set_session example_platform 1000000 example_store ''sid1'' ?s)"
  note ready = set_session_ready[OF example_ready date_session_expires date_session_text,
      of "''sid1''"]
  have "stored example_store ''sid1'' = []"
    by (simp add: stored_def rows_of_def matching_def example_store_def defaultOptions_def
        example_table_def)
  then have "stored ?st ''sid1'' = [\<lparr>r_sid = ''sid1'', r_expires = Fin 5,
      r_data = Some (Spells (JObj [(''cookie'',
         JObj [(''expires'', JStr ''1970-01-01T00:00:05.000Z'')])]))\<rparr>]"
    by (simp add: stored_after_set[OF example_ready date_session_expires date_session_text])
  then have "snd (get ?st ''sid1'')
     = Done (Obj [(''cookie'', Obj [(''expires'', Str ''1970-01-01T00:00:05.000Z'')])])"
    unfolding get_ready[OF ready(3,4)] by simp
  with ready(1) date_session_text show ?thesis by simp
qed

subsection \<open>The expiry that is stored\<close>

lemma getExpires_cases:
  assumes "get_prop sess ''cookie'' = Inr cookie"
  shows "getExpires p now sess x =
     (case to_Date p
        (if truthy cookie \<and> truthy (property cookie ''expires'') then property cookie ''expires''
         else if truthy cookie \<and> truthy (property cookie ''_expires'')
           then property cookie ''_expires''
         else Num (js_add (Fin (of_int now)) x)) of
        Inl e \<Rightarrow> Inl e
      | Inr d \<Rightarrow> Inr (Math_round (js_div (getTime d) 1000)))"
  unfolding getExpires_eq[OF assms] by (simp add: pick_expires_def)

text \<open>
  C2. As stated the claim takes \<^verbatim>\<open>cookie.expires\<close> whenever the field is present, and the
  code does not: it tests the value, so a field that is there with a falsy value (0, the
  empty string, \<^verbatim>\<open>null\<close>) is passed over. What holds, for a session whose cookie can be
  read: the source of the expiry is \<^verbatim>\<open>cookie.expires\<close> if that is truthy, else
  \<^verbatim>\<open>cookie._expires\<close> if that is truthy, else now plus the configured expiration;
  whichever it is, the result is its time value in milliseconds divided by 1000 and
  rounded, for a time value \<open>T\<close> exactly \<open>round (T / 1000)\<close>; and that number is what
  \<^verbatim>\<open>set\<close> and \<^verbatim>\<open>touch\<close> leave in the expires column of the rows with the id.
\<close>

theorem stored_expires_whole_seconds:
  assumes "get_prop sess ''cookie'' = Inr cookie"
    and "source =
      (if truthy cookie \<and> truthy (property cookie ''expires'') then property cookie ''expires''
       else if truthy cookie \<and> truthy (property cookie ''_expires'')
         then property cookie ''_expires''
       else Num (js_add (Fin (of_int now)) (expiration (options st))))"
    and "to_Date p source = Inr d"
  shows "getExpires p now sess (expiration (options st))
           = Inr (Math_round (js_div (getTime d) 1000)) \<and>
         (\<forall>T. d = Some T \<longrightarrow>
            Math_round (js_div (getTime d) 1000) = Fin (of_int (round (of_int T / 1000 :: rat)))) \<and>
         (connected (client st) \<and> table_ready st \<and> JSON_stringify p sess = Inr jsess \<longrightarrow>
            set (map r_expires (stored (fst (set_session p now st sid sess)) sid))
              = {Math_round (js_div (getTime d) 1000)}) \<and>
         (connected (client st) \<and> table_ready st \<longrightarrow>
            set (map r_expires (stored (fst (touch p now st sid sess)) sid))
              \<subseteq> {Math_round (js_div (getTime d) 1000)})"
proof -
  let ?secs = "Math_round (js_div (getTime d) 1000)"
  have secs: "getExpires p now sess (expiration (options st)) = Inr ?secs"
    unfolding getExpires_cases[OF assms(1)] assms(2)[symmetric] assms(3) by simp
  have whole: "\<forall>T. d = Some T \<longrightarrow> ?secs = Fin (of_int (round (of_int T / 1000 :: rat)))"
    by simp
  have after_set: "set (map r_expires (stored (fst (set_session p now st sid sess)) sid))
      = {?secs}"
    if "connected (client st)" "table_ready st" "JSON_stringify p sess = Inr jsess"
    using stored_after_set[OF that(1,2) secs that(3), of sid]
    by (cases "stored st sid") auto
  have after_touch: "set (map r_expires (stored (fst (touch p now st sid sess)) sid))
      \<subseteq> {?secs}"
    if "connected (client st)" "table_ready st"
    using stored_after_touch[OF that secs, of sid sid] by auto
  from secs whole after_set after_touch show ?thesis by blast
qed

theorem stored_expires_whole_seconds_witness:
  "get_prop (Obj [(''cookie'', Obj [(''expires'', DateV (Some 1499))])]) ''cookie''
     = Inr (Obj [(''expires'', DateV (Some 1499))]) \<and>
   to_Date example_platform (DateV (Some 1499)) = Inr (Some 1499) \<and>
   connected (client example_store) \<and> table_ready example_store \<and>
   JSON_stringify example_platform (Obj [(''cookie'', Obj [(''expires'', DateV (Some 1499))])])
     = Inr (Some (Spells (JObj [(''cookie'',
         JObj [(''expires'', JStr ''1970-01-01T00:00:01.499Z'')])]))) \<and>
   getExpires example_platform 1000000
       (Obj [(''cookie'', Obj [(''expires'', DateV (Some 1499))])])
       (expiration (options example_store)) = Inr (Fin 1) \<and>
   set (map r_expires (stored (fst (set_session example_platform 1000000 example_store ''sid1''
       (Obj [(''cookie'', Obj [(''expires'', DateV (Some 1499))])]))) ''sid1'')) = {Fin 1} \<and>
   set (map r_expires (stored (fst (touch example_platform 1000000 example_store ''bad''
       (Obj [(''cookie'', Obj [(''expires'', DateV (Some 1499))])]))) ''bad'')) = {Fin 1}"
proof -
  let ?c = "Obj [(''expires'', DateV (Some 1499))]"
  let ?s = "Obj [(''cookie'', ?c)]"
  have c: "get_prop ?s ''cookie'' = Inr ?c" by simp
  have src: "DateV (Some 1499) =
      (if truthy ?c \<and> truthy (property ?c ''expires'') then property ?c ''expires''
       else if truthy ?c \<and> truthy (property ?c ''_expires'') then property ?c ''_expires''
       else Num (js_add (Fin (of_int 1000000)) (expiration (options example_store))))"
    by simp
  have d: "to_Date example_platform (DateV (Some 1499)) = Inr (Some 1499)"
    by (simp add: to_Date_def)
  have j: "JSON_stringify example_platform ?s
     = Inr (Some (Spells (JObj [(''cookie'',
         JObj [(''expires'', JStr ''1970-01-01T00:00:01.499Z'')])])))"
    by (simp add: JSON_stringify_def example_platform_def)
  have secs: "Math_round (js_div (getTime (Some 1499)) 1000) = Fin 1"
    unfolding whole_seconds_ms by simp
  have bad: "stored example_store ''bad''
      = [\<lparr>r_sid = ''bad'', r_expires = Fin 7, r_data = Some Garbled\<rparr>]"
    by (simp add: stored_def rows_of_def matching_def example_store_def defaultOptions_def
        example_table_def)
  note t = stored_expires_whole_seconds[OF c src d, unfolded secs]
  have g: "getExpires example_platform 1000000 ?s (expiration (options example_store))
      = Inr (Fin 1)"
    using t[of _ "''sid1''"] by blast
  have "set (map r_expires (stored (fst (touch example_platform 1000000 example_store ''bad''
       ?s)) ''bad'')) \<noteq> {}"
    by (simp add: stored_after_touch[OF example_ready g] bad)
  moreover have "set (map r_expires (stored (fst (touch example_platform 1000000
       example_store ''bad'' ?s)) ''bad'')) \<subseteq> {Fin 1}"
    using t[of _ "''bad''"] example_ready by blast
  ultimately have touched: "set (map r_expires (stored (fst (touch example_platform 1000000
       example_store ''bad'' ?s)) ''bad'')) = {Fin 1}"
    by (auto dest: subset_singletonD)
  have "set (map r_expires (stored (fst (set_session example_platform 1000000 example_store
       ''sid1'' ?s)) ''sid1'')) = {Fin 1}"
    using t[of _ "''sid1''"] example_ready j by blast
  with c d j g touched example_ready show ?thesis by blast
qed

theorem getExpires_present_counterexample:
  "present (Obj [(''expires'', Num (Fin 0))]) ''expires'' \<and>
   spec_getExpires example_platform 1000000
       (Obj [(''cookie'', Obj [(''expires'', Num (Fin 0))])]) (Fin 2592000) = Inr (Fin 0) \<and>
   getExpires example_platform 1000000
       (Obj [(''cookie'', Obj [(''expires'', Num (Fin 0))])]) (Fin 2592000) = Inr (Fin 3592)"
  by (simp add: getExpires_def spec_getExpires_def pick_expires_def to_Date_def example_sum)

text \<open>
  C9. As stated the claim sends every falsy \<^verbatim>\<open>cookie.expires\<close> to now plus the configured
  expiration and concludes that the epoch can never be stored. The code looks at
  \<^verbatim>\<open>cookie._expires\<close> first, and a \<^verbatim>\<open>Date\<close> at the epoch is an object, so it is truthy and
  is stored as 0. What holds: a \<^verbatim>\<open>cookie.expires\<close> that is present but falsy is ignored;
  the expiry comes from \<^verbatim>\<open>cookie._expires\<close> when that is truthy, and from now plus the
  configured expiration otherwise.
\<close>

theorem falsy_expires_ignored:
  assumes "get_prop sess ''cookie'' = Inr cookie"
    and "present cookie ''expires''"
    and "\<not> truthy (property cookie ''expires'')"
  shows "(truthy (property cookie ''_expires'') \<longrightarrow>
            getExpires p now sess x =
              (case to_Date p (property cookie ''_expires'') of
                 Inl e \<Rightarrow> Inl e
               | Inr d \<Rightarrow> Inr (Math_round (js_div (getTime d) 1000)))) \<and>
         (\<not> truthy (property cookie ''_expires'') \<longrightarrow>
            getExpires p now sess x =
              Inr (Math_round (js_div (getTime (TimeClip (js_add (Fin (of_int now)) x))) 1000)))"
proof -
  from assms(2) have "truthy cookie" by (cases cookie) auto
  with assms(3) show ?thesis
    unfolding getExpires_cases[OF assms(1)] by (simp add: to_Date_def)
qed

theorem falsy_expires_ignored_witness:
  "get_prop (Obj [(''cookie'', Obj [(''expires'', Num (Fin 0))])]) ''cookie''
     = Inr (Obj [(''expires'', Num (Fin 0))]) \<and>
   present (Obj [(''expires'', Num (Fin 0))]) ''expires'' \<and>
   \<not> truthy (property (Obj [(''expires'', Num (Fin 0))]) ''expires'') \<and>
   \<not> truthy (property (Obj [(''expires'', Num (Fin 0))]) ''_expires'') \<and>
   getExpires example_platform 1000000
       (Obj [(''cookie'', Obj [(''expires'', Num (Fin 0))])]) (Fin 2592000) = Inr (Fin 3592) \<and>
   get_prop (Obj [(''cookie'', Obj [(''expires'', Str []), (''_expires'', DateV (Some 5000))])])
       ''cookie''
     = Inr (Obj [(''expires'', Str []), (''_expires'', DateV (Some 5000))]) \<and>
   present (Obj [(''expires'', Str []), (''_expires'', DateV (Some 5000))]) ''expires'' \<and>
   \<not> truthy (property (Obj [(''expires'', Str []), (''_expires'', DateV (Some 5000))])
       ''expires'') \<and>
   truthy (property (Obj [(''expires'', Str []), (''_expires'', DateV (Some 5000))])
       ''_expires'') \<and>
   getExpires example_platform 1000000
       (Obj [(''cookie'', Obj [(''expires'', Str []), (''_expires'', DateV (Some 5000))])])
       (Fin 2592000) = Inr (Fin 5)"
proof -
  let ?c = "Obj [(''expires'', Num (Fin 0))]"
  let ?c' = "Obj [(''expires'', Str []), (''_expires'', DateV (Some 5000))]"
  have h: "get_prop (Obj [(''cookie'', ?c)]) ''cookie'' = Inr ?c" "present ?c ''expires''"
    "\<not> truthy (property ?c ''expires'')"
    by simp_all
  have h': "get_prop (Obj [(''cookie'', ?c')]) ''cookie'' = Inr ?c'" "present ?c' ''expires''"
    "\<not> truthy (property ?c' ''expires'')"
    by simp_all
  have a: "getExpires example_platform 1000000 (Obj [(''cookie'', ?c)]) (Fin 2592000)
      = Inr (Fin 3592)"
    using falsy_expires_ignored[OF h, of example_platform 1000000 "Fin 2592000"]
    by (simp add: example_sum)
  have b: "getExpires example_platform 1000000 (Obj [(''cookie'', ?c')]) (Fin 2592000)
      = Inr (Fin 5)"
    using falsy_expires_ignored[OF h', of example_platform 1000000 "Fin 2592000"]
    by (simp add: to_Date_def)
  from a b show ?thesis by simp
qed

theorem falsy_expires_fallback_counterexample:
  "present (Obj [(''expires'', Num (Fin 0)), (''_expires'', DateV (Some 5000))]) ''expires'' \<and>
   \<not> truthy (property (Obj [(''expires'', Num (Fin 0)), (''_expires'', DateV (Some 5000))])
       ''expires'') \<and>
   getExpires example_platform 1000000
       (Obj [(''cookie'', Obj [(''expires'', Num (Fin 0)), (''_expires'', DateV (Some 5000))])])
       (Fin 2592000) = Inr (Fin 5) \<and>
   Math_round (js_div (getTime (TimeClip (js_add (Fin 1000000) (Fin 2592000)))) 1000)
     = Fin 3592 \<and>
   getExpires example_platform 1000000
       (Obj [(''cookie'', Obj [(''expires'', DateV (Some 0))])]) (Fin 2592000) = Inr (Fin 0)"
  by (simp add: getExpires_def pick_expires_def to_Date_def example_sum)

subsection \<open>Reading a session\<close>

text \<open>
  C3. On a store with a live connection and its table in place, \<^verbatim>\<open>get(id)\<close> hands over
  \<^verbatim>\<open>null\<close> and no error when no row has the id; when the first row with the id holds
  data that does not parse, it hands over the error whose message names the id, which is
  not the answer for a missing row.
\<close>

theorem get_missing_or_unparsable:
  assumes "connected (client st)" and "table_ready st"
  shows "(stored st sid = [] \<longrightarrow> snd (get st sid) = Done Null) \<and>
         (\<forall>r rs j e. stored st sid = r # rs \<and> r_data r = Some j \<and> JSON_parse j = Inl e \<longrightarrow>
            snd (get st sid) = Failed (Error (''Failed to parse data for session: '' @ sid)) \<and>
            snd (get st sid) \<noteq> Done Null)"
  unfolding get_ready[OF assms] by auto

theorem get_missing_or_unparsable_witness:
  "connected (client example_store) \<and> table_ready example_store \<and>
   stored example_store ''nope'' = [] \<and>
   snd (get example_store ''nope'') = Done Null \<and>
   stored example_store ''bad''
     = [\<lparr>r_sid = ''bad'', r_expires = Fin 7, r_data = Some Garbled\<rparr>] \<and>
   JSON_parse Garbled = Inl SyntaxError \<and>
   snd (get example_store ''bad'') = Failed (Error ''Failed to parse data for session: bad'')"
proof -
  have nope: "stored example_store ''nope'' = []"
    by (simp add: stored_def rows_of_def matching_def example_store_def defaultOptions_def
        example_table_def)
  have bad: "stored example_store ''bad''
      = [\<lparr>r_sid = ''bad'', r_expires = Fin 7, r_data = Some Garbled\<rparr>]"
    by (simp add: stored_def rows_of_def matching_def example_store_def defaultOptions_def
        example_table_def)
  have "snd (get example_store ''nope'') = Done Null"
    using get_missing_or_unparsable[OF example_ready, of "''nope''"] nope by blast
  moreover have "snd (get example_store ''bad'')
      = Failed (Error (''Failed to parse data for session: '' @ ''bad''))"
    using get_missing_or_unparsable[OF example_ready, of "''bad''"] bad by simp
  ultimately show ?thesis using nope bad example_ready by simp
qed

subsection \<open>A session that cannot be serialized\<close>

text \<open>
  C4. As stated the claim has every session that fails to serialize reported to the
  continuation. The expiry is computed first, outside the \<^verbatim>\<open>try\<close>, and a session whose
  \<^verbatim>\<open>cookie.expires\<close> is a \<^verbatim>\<open>BigInt\<close> fails there: \<^verbatim>\<open>set\<close> throws the \<^verbatim>\<open>TypeError\<close> of
  \<^verbatim>\<open>new Date\<close> instead of handing over the error of \<^verbatim>\<open>JSON.stringify\<close>. What holds: for
  every id and every session whose serialization fails, \<^verbatim>\<open>set\<close> leaves the store as it
  was, with no statement sent and no row changed; and when the expiry of the session can
  be computed, the serialization error goes to the continuation.
\<close>

theorem set_unserializable:
  assumes "JSON_stringify p sess = Inl err"
  shows "fst (set_session p now st sid sess) = st \<and>
         (\<forall>secs. getExpires p now sess (expiration (options st)) = Inr secs \<longrightarrow>
            set_session p now st sid sess = (st, Failed err))"
  using assms by (simp add: set_session_def split: sum.splits)

theorem set_unserializable_witness:
  "JSON_stringify example_platform (Obj [(''visits'', BigInt 7)])
     = Inl (TypeError ''Do not know how to serialize a BigInt'') \<and>
   getExpires example_platform 1000000 (Obj [(''visits'', BigInt 7)])
     (expiration (options example_store)) = Inr (Fin 3592) \<and>
   set_session example_platform 1000000 example_store ''sid1'' (Obj [(''visits'', BigInt 7)])
     = (example_store, Failed (TypeError ''Do not know how to serialize a BigInt''))"
proof -
  have j: "JSON_stringify example_platform (Obj [(''visits'', BigInt 7)])
     = Inl (TypeError ''Do not know how to serialize a BigInt'')"
    by (simp add: JSON_stringify_def)
  have e: "getExpires example_platform 1000000 (Obj [(''visits'', BigInt 7)])
     (expiration (options example_store)) = Inr (Fin 3592)"
    by (simp add: getExpires_def pick_expires_def to_Date_def example_store_def
        defaultOptions_def oneDay_def example_sum)
  from set_unserializable[OF j, of 1000000 example_store "''sid1''"] e j
  show ?thesis by simp
qed

theorem set_unserializable_counterexample:
  "is_object (Obj [(''cookie'', Obj [(''expires'', BigInt 1)])]) \<and>
   JSON_stringify example_platform (Obj [(''cookie'', Obj [(''expires'', BigInt 1)])])
     = Inl (TypeError ''Do not know how to serialize a BigInt'') \<and>
   set_session example_platform 1000000 example_store ''sid1''
       (Obj [(''cookie'', Obj [(''expires'', BigInt 1)])])
     = (example_store, Throws (TypeError ''Cannot convert a BigInt value to a number''))"
  by (simp add: JSON_stringify_def set_session_def getExpires_def pick_expires_def to_Date_def)

subsection \<open>Refreshing a session\<close>

text \<open>When \<^verbatim>\<open>set\<close> has succeeded the connection was live and the table in place.\<close>

lemma run_InrD:
  assumes "run st q ps = (st', Inr rows)"
  shows "connected (client st)" and "options st' = options st"
    and "connected (client st')"
  using assms
  by (auto simp: run_def query_def Let_def split: if_splits sum.splits prod.splits)

lemma count_where_InrD:
  assumes "run st (CountWhere (table_name st) (session_id (names st))) [SStr sid]
             = (st', Inr rows)"
  shows "database_of (client st') = database_of (client st)"
    and "rows = [LengthRow (int (length (stored st sid)))]"
    and "\<exists>tb. database_of (client st) (table_name st) = Some tb \<and>
           t_session_id tb = session_id (names st)"
  using assms
  by (auto simp: run_def query_def Let_def on_table_def stored_def rows_of_def
      split: if_splits sum.splits prod.splits option.splits)

lemma write_InrD:
  assumes "run st1 (if b then UpdateRow t e d s else InsertRow t s e d)
             (if b then [SNum secs, bind_text j, SStr sid] else [SStr sid, SNum secs, bind_text j])
           = (st2, Inr rows)"
  shows "\<exists>tb. database_of (client st1) t = Some tb \<and> t_session_id tb = s \<and>
           t_expires tb = e \<and> t_data tb = d"
  using assms
  by (cases b)
    (auto simp: run_def query_def Let_def on_table_def text_param_bind
      split: if_splits sum.splits prod.splits option.splits)

lemma set_session_DoneD:
  assumes "set_session p now st sid sess = (st', Done ())"
  shows "connected (client st) \<and> table_ready st"
proof -
  obtain secs where secs: "getExpires p now sess (expiration (options st)) = Inr secs"
    using assms by (cases "getExpires p now sess (expiration (options st))")
      (auto simp: set_session_def)
  obtain j where j: "JSON_stringify p sess = Inr j"
    using assms secs by (cases "JSON_stringify p sess") (auto simp: set_session_def)
  have conn: "connected (client st)"
    using assms secs j by (auto simp: set_session_def split: if_splits)
  obtain st1 r1 where r1: "run st (CountWhere (table_name st) (session_id (names st)))
      [SStr sid] = (st1, r1)"
    by (cases "run st (CountWhere (table_name st) (session_id (names st))) [SStr sid]")
  obtain rows where rows: "r1 = Inr rows"
    using assms secs j conn r1 by (cases r1) (auto simp: set_session_def)
  note c = count_where_InrD[OF r1[unfolded rows]]
  let ?b = "count_positive rows"
  obtain st2 r2 where r2: "run st1
      (if ?b then UpdateRow (table_name st) (expires (names st)) (data (names st))
                    (session_id (names st))
       else InsertRow (table_name st) (session_id (names st)) (expires (names st))
                    (data (names st)))
      (if ?b then [SNum secs, bind_text j, SStr sid] else [SStr sid, SNum secs, bind_text j])
      = (st2, r2)"
    by (cases "run st1
      (if ?b then UpdateRow (table_name st) (expires (names st)) (data (names st))
                    (session_id (names st))
       else InsertRow (table_name st) (session_id (names st)) (expires (names st))
                    (data (names st)))
      (if ?b then [SNum secs, bind_text j, SStr sid] else [SStr sid, SNum secs, bind_text j])")
  obtain ack where ack: "r2 = Inr ack"
    using assms secs j conn r1 rows r2
    by (cases r2) (auto simp: set_session_def split: if_splits)
  from write_InrD[OF r2[unfolded ack]] c(1)
  have "table_ready st" by (auto simp: table_ready_def)
  with conn show ?thesis by simp
qed

text \<open>
  C5. On a store with a live connection and its table in place, and for a session \<open>s2\<close>
  whose expiry can be computed, \<^verbatim>\<open>touch(id, s2)\<close> succeeds and changes the rows with that
  id in their expires column and nowhere else: every data column is as before, so
  \<^verbatim>\<open>get(id)\<close> answers as before. After \<^verbatim>\<open>set(id, s)\<close> the rows with the id hold the
  expiry computed from \<open>s2\<close>, and for a session \<open>s\<close> of plain JSON \<^verbatim>\<open>get(id)\<close> still
  returns \<open>s\<close>.
\<close>

theorem touch_updates_only_expires:
  assumes "connected (client st1)" and "table_ready st1"
    and "getExpires p now s2 (expiration (options st1)) = Inr secs"
    and "touch p now st1 sid s2 = (st2, out)"
  shows "out = Done () \<and>
         rows_of st2
           = map (\<lambda>r. if r_sid r = sid then r\<lparr>r_expires := secs\<rparr> else r) (rows_of st1) \<and>
         map r_data (rows_of st2) = map r_data (rows_of st1) \<and>
         snd (get st2 sid) = snd (get st1 sid) \<and>
         (\<forall>p0 now0 st0 s. set_session p0 now0 st0 sid s = (st1, Done ()) \<longrightarrow>
            set (map r_expires (stored st2 sid)) = {secs} \<and>
            (is_object s \<and> plain_json s \<longrightarrow> snd (get st2 sid) = Done s))"
proof -
  from assms(4) have st2: "st2 = fst (touch p now st1 sid s2)"
    and out: "out = snd (touch p now st1 sid s2)" by simp_all
  note ready = touch_ready[OF assms(1-3), of sid, folded st2 out]
  note after = stored_after_touch[OF assms(1-3), of sid sid, folded st2]
  have datas: "map r_data (rows_of st2) = map r_data (rows_of st1)"
    unfolding ready(5) by (induction "rows_of st1") auto
  have same: "snd (get st2 sid) = snd (get st1 sid)"
    unfolding get_ready[OF ready(3,4)] get_ready[OF assms(1,2)] after
    by (cases "stored st1 sid") auto
  have from_set: "set (map r_expires (stored st2 sid)) = {secs} \<and>
      (is_object s \<and> plain_json s \<longrightarrow> snd (get st2 sid) = Done s)"
    if set_done: "set_session p0 now0 st0 sid s = (st1, Done ())" for p0 now0 st0 s
  proof -
    from set_session_DoneD[OF set_done]
    have r0: "connected (client st0)" "table_ready st0" by simp_all
    from set_done obtain secs0 j0
      where e0: "getExpires p0 now0 s (expiration (options st0)) = Inr secs0"
        and j0: "JSON_stringify p0 s = Inr j0"
      by (auto simp: set_session_def split: sum.splits)
    from set_done have st1: "st1 = fst (set_session p0 now0 st0 sid s)" by simp
    have "stored st1 sid \<noteq> []"
      unfolding st1 stored_after_set[OF r0 e0 j0] by simp
    then have a: "set (map r_expires (stored st2 sid)) = {secs}"
      unfolding after by (cases "stored st1 sid") auto
    have "snd (get st2 sid) = Done s" if "is_object s" "plain_json s"
      using get_after_set(2)[OF r0 that(2) e0, of sid] same st1 by simp
    with a show ?thesis by simp
  qed
  from ready(1,5) datas same from_set show ?thesis by blast
qed

theorem touch_updates_only_expires_witness:
  "connected (client (fst (set_session example_platform 1000000 example_store ''sid1''
      (Obj [(''name'', Str ''tj'')])))) \<and>
   table_ready (fst (set_session example_platform 1000000 example_store ''sid1''
      (Obj [(''name'', Str ''tj'')]))) \<and>
   set_session example_platform 1000000 example_store ''sid1'' (Obj [(''name'', Str ''tj'')])
     = (fst (set_session example_platform 1000000 example_store ''sid1''
          (Obj [(''name'', Str ''tj'')])), Done ()) \<and>
   getExpires example_platform 2000000 (Obj [(''cookie'', Obj [(''expires'', DateV (Some 5000))])])
     (expiration (options (fst (set_session example_platform 1000000 example_store ''sid1''
        (Obj [(''name'', Str ''tj'')]))))) = Inr (Fin 5) \<and>
   snd (touch example_platform 2000000
      (fst (set_session example_platform 1000000 example_store ''sid1''
         (Obj [(''name'', Str ''tj'')]))) ''sid1''
      (Obj [(''cookie'', Obj [(''expires'', DateV (Some 5000))])])) = Done () \<and>
   set (map r_expires (stored (fst (touch example_platform 2000000
      (fst (set_session example_platform 1000000 example_store ''sid1''
         (Obj [(''name'', Str ''tj'')]))) ''sid1''
      (Obj [(''cookie'', Obj [(''expires'', DateV (Some 5000))])]))) ''sid1'')) = {Fin 5} \<and>
   snd (get (fst (touch example_platform 2000000
      (fst (set_session example_platform 1000000 example_store ''sid1''
         (Obj [(''name'', Str ''tj'')]))) ''sid1''
      (Obj [(''cookie'', Obj [(''expires'', DateV (Some 5000))])]))) ''sid1'')
     = Done (Obj [(''name'', Str ''tj'')])"
proof -
  let ?s = "Obj [(''name'', Str ''tj'')]"
  let ?s2 = "Obj [(''cookie'', Obj [(''expires'', DateV (Some 5000))])]"
  let ?st1 = "fst (set_session example_platform 1000000 example_store ''sid1'' ?s)"
  let ?st2 = "fst (touch example_platform 2000000 ?st1 ''sid1'' ?s2)"
  have e: "getExpires example_platform 1000000 ?s (expiration (options example_store))
      = Inr (Fin 3592)"
    by (simp add: getExpires_def pick_expires_def to_Date_def example_store_def
        defaultOptions_def oneDay_def example_sum)
  have j: "JSON_stringify example_platform ?s = Inr (Some (Spells (JObj [(''name'', JStr ''tj'')])))"
    by (simp add: JSON_stringify_def)
  note ready = set_session_ready[OF example_ready e j, of "''sid1''"]
  have was_set: "set_session example_platform 1000000 example_store ''sid1'' ?s = (?st1, Done ())"
    using ready(1) by (simp add: prod_eq_iff)
  have e2: "getExpires example_platform 2000000 ?s2 (expiration (options ?st1)) = Inr (Fin 5)"
    by (simp add: getExpires_def pick_expires_def to_Date_def)
  have t: "touch example_platform 2000000 ?st1 ''sid1'' ?s2
      = (?st2, snd (touch example_platform 2000000 ?st1 ''sid1'' ?s2))"
    by simp
  have plain: "is_object ?s" "plain_json ?s" by simp_all
  from touch_updates_only_expires[OF ready(3,4) e2 t] was_set plain
  have "snd (touch example_platform 2000000 ?st1 ''sid1'' ?s2) = Done ()"
    "set (map r_expires (stored ?st2 ''sid1'')) = {Fin 5}"
    "snd (get ?st2 ''sid1'') = Done ?s"
    by blast+
  with ready(3,4) was_set e2 show ?thesis by simp
qed

text \<open>
  C6. As stated the claim has \<^verbatim>\<open>touch(id, s)\<close> succeed whatever \<open>s\<close> is, and it does not:
  the expiry is computed first, unguarded, and where that throws (\<^verbatim>\<open>cookie.expires\<close> a
  \<^verbatim>\<open>BigInt\<close>, or an object that cannot be converted to a primitive) \<^verbatim>\<open>touch\<close> throws.
  What holds: on a store with a live connection and its table in place, for an id that no
  row has, \<^verbatim>\<open>touch(id, s)\<close> leaves the database as it was, so no row is created and
  \<^verbatim>\<open>length\<close> hands over the same count after as before, the number of rows; it
  succeeds when the expiry of \<open>s\<close> can be computed and throws the error of the expiry
  computation when it cannot.
\<close>

theorem touch_missing_id:
  assumes "connected (client st)" and "table_ready st"
    and "stored st sid = []"
  shows "database_of (client (fst (touch p now st sid s))) = database_of (client st) \<and>
         rows_of (fst (touch p now st sid s)) = rows_of st \<and>
         snd (length_sessions (fst (touch p now st sid s))) = snd (length_sessions st) \<and>
         snd (length_sessions st) = Done (Num (Fin (of_int (int (length (rows_of st)))))) \<and>
         (\<forall>secs. getExpires p now s (expiration (options st)) = Inr secs \<longrightarrow>
            snd (touch p now st sid s) = Done ()) \<and>
         (\<forall>thrown. getExpires p now s (expiration (options st)) = Inl thrown \<longrightarrow>
            touch p now st sid s = (st, Throws thrown))"
proof (cases "getExpires p now s (expiration (options st))")
  case (Inl thrown)
  then have "touch p now st sid s = (st, Throws thrown)" by (simp add: touch_def)
  with Inl length_ready[OF assms(1,2)] show ?thesis by simp
next
  case (Inr secs)
  note ready = touch_ready[OF assms(1,2) Inr, of sid]
  note db = touch_absent_database[OF assms(1,2) Inr assms(3)]
  have rows: "rows_of (fst (touch p now st sid s)) = rows_of st"
    using db ready(2) by (simp add: rows_of_def)
  show ?thesis
    using Inr ready(1) db rows length_ready[OF ready(3,4)] length_ready[OF assms(1,2)]
    by simp
qed

theorem touch_missing_id_witness:
  "connected (client example_store) \<and> table_ready example_store \<and>
   stored example_store ''nope'' = [] \<and>
   getExpires example_platform 1000000 (Obj [(''name'', Str ''tj'')])
     (expiration (options example_store)) = Inr (Fin 3592) \<and>
   snd (touch example_platform 1000000 example_store ''nope'' (Obj [(''name'', Str ''tj'')]))
     = Done () \<and>
   snd (length_sessions example_store) = Done (Num (Fin 1)) \<and>
   snd (length_sessions (fst (touch example_platform 1000000 example_store ''nope''
     (Obj [(''name'', Str ''tj'')])))) = Done (Num (Fin 1)) \<and>
   getExpires example_platform 1000000 Null (expiration (options example_store))
     = Inl (TypeError ''Cannot read properties of null'') \<and>
   touch example_platform 1000000 example_store ''nope'' Null
     = (example_store, Throws (TypeError ''Cannot read properties of null''))"
proof -
  have nope: "stored example_store ''nope'' = []"
    by (simp add: stored_def rows_of_def matching_def example_store_def defaultOptions_def
        example_table_def)
  have e: "getExpires example_platform 1000000 (Obj [(''name'', Str ''tj'')])
      (expiration (options example_store)) = Inr (Fin 3592)"
    by (simp add: getExpires_def pick_expires_def to_Date_def example_store_def
        defaultOptions_def oneDay_def example_sum)
  have thrown: "getExpires example_platform 1000000 Null (expiration (options example_store))
      = Inl (TypeError ''Cannot read properties of null'')"
    by (simp add: getExpires_def)
  have n: "rows_of example_store
      = [\<lparr>r_sid = ''bad'', r_expires = Fin 7, r_data = Some Garbled\<rparr>]"
    by (simp add: rows_of_def example_store_def defaultOptions_def example_table_def)
  from touch_missing_id[OF example_ready nope, of example_platform 1000000
      "Obj [(''name'', Str ''tj'')]"] n nope e example_ready
  have a: "snd (touch example_platform 1000000 example_store ''nope''
        (Obj [(''name'', Str ''tj'')])) = Done ()"
    "snd (length_sessions example_store) = Done (Num (Fin 1))"
    "snd (length_sessions (fst (touch example_platform 1000000 example_store ''nope''
        (Obj [(''name'', Str ''tj'')])))) = Done (Num (Fin 1))"
    by simp_all
  from touch_missing_id[OF example_ready nope, of example_platform 1000000 Null] thrown
  have b: "touch example_platform 1000000 example_store ''nope'' Null
     = (example_store, Throws (TypeError ''Cannot read properties of null''))"
    by blast
  from example_ready nope e a thrown b show ?thesis by simp
qed

theorem touch_missing_id_counterexample:
  "connected (client example_store) \<and> table_ready example_store \<and>
   stored example_store ''nope'' = [] \<and>
   touch example_platform 1000000 example_store ''nope''
       (Obj [(''cookie'', Obj [(''expires'', BigInt 1)])])
     = (example_store, Throws (TypeError ''Cannot convert a BigInt value to a number'')) \<and>
   touch example_platform 1000000 example_store ''nope''
       (Obj [(''cookie'', Obj [(''expires'', Obj [(''toString'', Num (Fin 1))])])])
     = (example_store, Throws (TypeError ''Cannot convert object to primitive value''))"
proof -
  have "stored example_store ''nope'' = []"
    by (simp add: stored_def rows_of_def matching_def example_store_def defaultOptions_def
        example_table_def)
  then show ?thesis
    by (simp add: example_ready touch_def getExpires_def pick_expires_def to_Date_def)
qed

subsection \<open>Dropping the table\<close>

text \<open>
  C7. When \<^verbatim>\<open>allowDrop\<close> is falsy, as it is by default and whenever the caller leaves
  it out or passes \<^verbatim>\<open>false\<close>, \<^verbatim>\<open>dropDatabaseTable\<close> hands the configuration error to its
  continuation and leaves the store as it was, no statement sent. When \<^verbatim>\<open>allowDrop\<close> is
  \<^verbatim>\<open>true\<close> and the connection is live it sends exactly the \<^verbatim>\<open>DROP TABLE\<close> statement for
  the configured table, and a table that was there is gone.
\<close>

theorem dropDatabaseTable_gate:
  "(\<not> truthy (allowDrop (options st)) \<longrightarrow>
      dropDatabaseTable st =
        (st, Failed (Error (''Dropping session table not allowed by config. ''
                            @ ''Set allowDrop: true in your config to enable this.'')))) \<and>
   (\<forall>g. g_allowDrop g = None \<or> g_allowDrop g = Some (Bool False) \<longrightarrow>
      \<not> truthy (allowDrop (extend_options defaultOptions g))) \<and>
   (allowDrop (options st) = Bool True \<and> connected (client st) \<longrightarrow>
      issued (client (fst (dropDatabaseTable st)))
        = issued (client st) @ [(DropTable (table_name st), [])] \<and>
      sql_text (DropTable (table_name st)) = ''DROP TABLE \"'' @ table_name st @ ''\"'' \<and>
      (database_of (client st) (table_name st) \<noteq> None \<longrightarrow>
         snd (dropDatabaseTable st) = Done () \<and>
         database_of (client (fst (dropDatabaseTable st))) (table_name st) = None))"
proof -
  have refused: "dropDatabaseTable st =
      (st, Failed (Error (''Dropping session table not allowed by config. ''
                          @ ''Set allowDrop: true in your config to enable this.'')))"
    if "\<not> truthy (allowDrop (options st))"
    using that by (simp add: dropDatabaseTable_def)
  have default: "\<not> truthy (allowDrop (extend_options defaultOptions g))"
    if "g_allowDrop g = None \<or> g_allowDrop g = Some (Bool False)" for g
    using that by (auto simp: extend_options_def defaultOptions_def)
  have sent: "issued (client (fst (dropDatabaseTable st)))
        = issued (client st) @ [(DropTable (table_name st), [])]"
    if "allowDrop (options st) = Bool True" "connected (client st)"
    using that
    by (simp add: dropDatabaseTable_def run_def query_def split: option.splits)
  have gone: "snd (dropDatabaseTable st) = Done () \<and>
      database_of (client (fst (dropDatabaseTable st))) (table_name st) = None"
    if "allowDrop (options st) = Bool True" "connected (client st)"
      "database_of (client st) (table_name st) \<noteq> None"
    using that
    by (auto simp: dropDatabaseTable_def run_def query_def split: option.splits)
  from refused default sent gone show ?thesis by simp
qed

theorem dropDatabaseTable_gate_witness:
  "\<not> truthy (allowDrop (options example_store)) \<and>
   dropDatabaseTable example_store =
     (example_store,
      Failed (Error (''Dropping session table not allowed by config. ''
                     @ ''Set allowDrop: true in your config to enable this.''))) \<and>
   g_allowDrop no_options = None \<and>
   \<not> truthy (allowDrop (extend_options defaultOptions no_options)) \<and>
   allowDrop (options (example_store\<lparr>options := (options example_store)\<lparr>allowDrop := Bool True\<rparr>\<rparr>))
     = Bool True \<and>
   connected (client (example_store\<lparr>options := (options example_store)\<lparr>allowDrop := Bool True\<rparr>\<rparr>)) \<and>
   issued (client (fst (dropDatabaseTable
       (example_store\<lparr>options := (options example_store)\<lparr>allowDrop := Bool True\<rparr>\<rparr>))))
     = [(DropTable ''sessions'', [])] \<and>
   sql_text (DropTable ''sessions'') = ''DROP TABLE \"sessions\"'' \<and>
   snd (dropDatabaseTable
       (example_store\<lparr>options := (options example_store)\<lparr>allowDrop := Bool True\<rparr>\<rparr>)) = Done () \<and>
   database_of (client (fst (dropDatabaseTable
       (example_store\<lparr>options := (options example_store)\<lparr>allowDrop := Bool True\<rparr>\<rparr>))))
     ''sessions'' = None"
proof -
  let ?open = "example_store\<lparr>options := (options example_store)\<lparr>allowDrop := Bool True\<rparr>\<rparr>"
  have off: "\<not> truthy (allowDrop (options example_store))"
    by (simp add: example_store_def defaultOptions_def)
  have none: "g_allowDrop no_options = None" by (simp add: no_options_def)
  have on: "allowDrop (options ?open) = Bool True" "connected (client ?open)"
    "table_name ?open = ''sessions''" "issued (client ?open) = []"
    "database_of (client ?open) (table_name ?open) \<noteq> None"
    by (simp_all add: example_store_def defaultOptions_def)
  from dropDatabaseTable_gate[of example_store] off
  have a: "dropDatabaseTable example_store =
     (example_store,
      Failed (Error (''Dropping session table not allowed by config. ''
                     @ ''Set allowDrop: true in your config to enable this.'')))"
    by blast
  from dropDatabaseTable_gate[of example_store] none
  have b: "\<not> truthy (allowDrop (extend_options defaultOptions no_options))"
    by blast
  from dropDatabaseTable_gate[of ?open] on(1,2,5)
  have c: "issued (client (fst (dropDatabaseTable ?open)))
        = issued (client ?open) @ [(DropTable (table_name ?open), [])]"
    "snd (dropDatabaseTable ?open) = Done ()"
    "database_of (client (fst (dropDatabaseTable ?open))) (table_name ?open) = None"
    by blast+
  from off a none b on(1,2) c[unfolded on(3,4)] show ?thesis by simp
qed

subsection \<open>The connection\<close>

lemma Db2Store_no_handle:
  assumes "case conn of
             Some c \<Rightarrow> \<not> connected c
           | None \<Rightarrow>
               (case openSync (connection_string (extend_options defaultOptions
                        (case opts of None \<Rightarrow> no_options | Some g \<Rightarrow> g))) of
                  Inl e \<Rightarrow> True
                | Inr c \<Rightarrow> \<not> connected c)"
  shows "fst (Db2Store openSync New opts conn) = Inl AssertionError"
  using assms by (auto simp: Db2Store_def Let_def split: option.splits sum.splits)

lemma Db2Store_connected:
  assumes "fst (Db2Store openSync how opts conn) = Inr st"
  shows "connected (client st)"
  using assms
  by (auto simp: Db2Store_def Let_def
      split: invocation.splits option.splits sum.splits if_splits)

text \<open>
  C8. Constructing a store fails with the assertion error when the handle it ends up
  with is absent (no connection was passed and \<^verbatim>\<open>openSync\<close> threw) or not connected,
  and a store that was constructed has a live connection. Every operation asserts the
  connection again before its query: on a store whose connection is no longer live,
  \<^verbatim>\<open>get\<close>, \<^verbatim>\<open>destroy\<close>, \<^verbatim>\<open>length\<close>, \<^verbatim>\<open>clear\<close> and \<^verbatim>\<open>createDatabaseTable\<close> throw the
  assertion error and send nothing; \<^verbatim>\<open>set\<close>, \<^verbatim>\<open>touch\<close> and \<^verbatim>\<open>dropDatabaseTable\<close> send
  nothing either, and throw the assertion error once they are past the expiry and the
  serialization, or past the \<^verbatim>\<open>allowDrop\<close> gate.
\<close>

theorem connection_asserted:
  "((case conn of
       Some c \<Rightarrow> \<not> connected c
     | None \<Rightarrow>
         (case openSync (connection_string (extend_options defaultOptions
                  (case opts of None \<Rightarrow> no_options | Some g \<Rightarrow> g))) of
            Inl e \<Rightarrow> True
          | Inr c \<Rightarrow> \<not> connected c)) \<longrightarrow>
      fst (Db2Store openSync New opts conn) = Inl AssertionError) \<and>
   (\<forall>made. fst (Db2Store openSync New opts conn) = Inr made \<longrightarrow> connected (client made)) \<and>
   (\<not> connected (client st) \<longrightarrow>
      get st sid = (st, Throws AssertionError) \<and>
      destroy st sid = (st, Throws AssertionError) \<and>
      length_sessions st = (st, Throws AssertionError) \<and>
      clear st = (st, Throws AssertionError) \<and>
      createDatabaseTable st = (st, Throws AssertionError) \<and>
      fst (set_session p now st sid sess) = st \<and>
      ((\<exists>secs. getExpires p now sess (expiration (options st)) = Inr secs) \<and>
       (\<exists>j. JSON_stringify p sess = Inr j) \<longrightarrow>
         snd (set_session p now st sid sess) = Throws AssertionError) \<and>
      fst (touch p now st sid sess) = st \<and>
      ((\<exists>secs. getExpires p now sess (expiration (options st)) = Inr secs) \<longrightarrow>
         snd (touch p now st sid sess) = Throws AssertionError) \<and>
      fst (dropDatabaseTable st) = st \<and>
      (truthy (allowDrop (options st)) \<longrightarrow>
         snd (dropDatabaseTable st) = Throws AssertionError))"
proof -
  have ops: "get st sid = (st, Throws AssertionError)"
    "destroy st sid = (st, Throws AssertionError)"
    "length_sessions st = (st, Throws AssertionError)"
    "clear st = (st, Throws AssertionError)"
    "createDatabaseTable st = (st, Throws AssertionError)"
    if "\<not> connected (client st)"
    using that
    by (simp_all add: get_def destroy_def length_sessions_def clear_def
        createDatabaseTable_def)
  have set1: "fst (set_session p now st sid sess) = st" if "\<not> connected (client st)"
    using that by (simp add: set_session_def split: sum.splits)
  have set2: "snd (set_session p now st sid sess) = Throws AssertionError"
    if "\<not> connected (client st)"
      "(\<exists>secs. getExpires p now sess (expiration (options st)) = Inr secs) \<and>
       (\<exists>j. JSON_stringify p sess = Inr j)"
    using that by (auto simp: set_session_def)
  have touch1: "fst (touch p now st sid sess) = st" if "\<not> connected (client st)"
    using that by (simp add: touch_def split: sum.splits)
  have touch2: "snd (touch p now st sid sess) = Throws AssertionError"
    if "\<not> connected (client st)"
      "\<exists>secs. getExpires p now sess (expiration (options st)) = Inr secs"
    using that by (auto simp: touch_def)
  have drop1: "fst (dropDatabaseTable st) = st" if "\<not> connected (client st)"
    using that by (simp add: dropDatabaseTable_def)
  have drop2: "snd (dropDatabaseTable st) = Throws AssertionError"
    if "\<not> connected (client st)" "truthy (allowDrop (options st))"
    using that by (simp add: dropDatabaseTable_def)
  from Db2Store_no_handle[where conn = conn and openSync = openSync and opts = opts]
    Db2Store_connected[where openSync = openSync and how = New and opts = opts and conn = conn]
    ops set1 set2 touch1 touch2 drop1 drop2
  show ?thesis by blast
qed

theorem connection_asserted_witness:
  "\<not> connected (client closed_store) \<and>
   fst (Db2Store (\<lambda>dsn. Inl (Error ''no route to host'')) New None (Some (client closed_store)))
     = Inl AssertionError \<and>
   fst (Db2Store (\<lambda>dsn. Inl (Error ''no route to host'')) New None None)
     = Inl AssertionError \<and>
   get closed_store ''sid1'' = (closed_store, Throws AssertionError) \<and>
   destroy closed_store ''sid1'' = (closed_store, Throws AssertionError) \<and>
   length_sessions closed_store = (closed_store, Throws AssertionError) \<and>
   clear closed_store = (closed_store, Throws AssertionError) \<and>
   createDatabaseTable closed_store = (closed_store, Throws AssertionError) \<and>
   set_session example_platform 1000000 closed_store ''sid1'' (Obj [(''name'', Str ''tj'')])
     = (closed_store, Throws AssertionError) \<and>
   touch example_platform 1000000 closed_store ''sid1'' (Obj [(''name'', Str ''tj'')])
     = (closed_store, Throws AssertionError) \<and>
   fst (dropDatabaseTable closed_store) = closed_store \<and>
   truthy (allowDrop (options (closed_store\<lparr>options := (options closed_store)\<lparr>allowDrop := Bool True\<rparr>\<rparr>))) \<and>
   dropDatabaseTable (closed_store\<lparr>options := (options closed_store)\<lparr>allowDrop := Bool True\<rparr>\<rparr>)
     = (closed_store\<lparr>options := (options closed_store)\<lparr>allowDrop := Bool True\<rparr>\<rparr>,
        Throws AssertionError)"
proof -
  let ?down = "\<lambda>dsn :: string. (Inl (Error ''no route to host'') :: error + client)"
  let ?s = "Obj [(''name'', Str ''tj'')]"
  let ?open = "closed_store\<lparr>options := (options closed_store)\<lparr>allowDrop := Bool True\<rparr>\<rparr>"
  have off: "\<not> connected (client closed_store)" "\<not> connected (client ?open)"
    "truthy (allowDrop (options ?open))"
    by (simp_all add: closed_store_def)
  have e: "\<exists>secs. getExpires example_platform 1000000 ?s (expiration (options closed_store))
      = Inr secs"
    by (simp add: getExpires_def pick_expires_def to_Date_def)
  have j: "\<exists>j. JSON_stringify example_platform ?s = Inr j"
    by (simp add: JSON_stringify_def)
  from connection_asserted[where conn = "Some (client closed_store)" and openSync = ?down
      and opts = None and st = closed_store and sid = "''sid1''" and p = example_platform
      and now = 1000000 and sess = ?s] off(1) e j
  have a: "fst (Db2Store ?down New None (Some (client closed_store))) = Inl AssertionError"
    "get closed_store ''sid1'' = (closed_store, Throws AssertionError)"
    "destroy closed_store ''sid1'' = (closed_store, Throws AssertionError)"
    "length_sessions closed_store = (closed_store, Throws AssertionError)"
    "clear closed_store = (closed_store, Throws AssertionError)"
    "createDatabaseTable closed_store = (closed_store, Throws AssertionError)"
    "fst (set_session example_platform 1000000 closed_store ''sid1'' ?s) = closed_store"
    "snd (set_session example_platform 1000000 closed_store ''sid1'' ?s) = Throws AssertionError"
    "fst (touch example_platform 1000000 closed_store ''sid1'' ?s) = closed_store"
    "snd (touch example_platform 1000000 closed_store ''sid1'' ?s) = Throws AssertionError"
    "fst (dropDatabaseTable closed_store) = closed_store"
    by simp_all
  from connection_asserted[where conn = None and openSync = ?down and opts = None
      and st = ?open and sid = "''sid1''" and p = example_platform and now = 1000000
      and sess = ?s] off(2,3)
  have b: "fst (Db2Store ?down New None None) = Inl AssertionError"
    "fst (dropDatabaseTable ?open) = ?open"
    "snd (dropDatabaseTable ?open) = Throws AssertionError"
    by simp_all
  from off(1,3) a b show ?thesis by (simp add: prod_eq_iff)
qed

text \<open>
  C10. Called plainly, without \<^verbatim>\<open>new\<close>, the constructor throws the \<^verbatim>\<open>TypeError\<close>
  whatever the options, the connection passed and the driver are, and does nothing to
  the outside: no connection is opened and no event emitted.
\<close>

theorem plain_call_throws:
  "Db2Store openSync Plain opts conn
     = (Inl (TypeError ''Cannot call Db2Store constructor as a function''), [])"
  by (simp add: Db2Store_def)

theorem plain_call_throws_witness:
  "Db2Store (\<lambda>dsn. Inr (client example_store)) Plain (Some no_options)
       (Some (client example_store))
     = (Inl (TypeError ''Cannot call Db2Store constructor as a function''), []) \<and>
   fst (Db2Store (\<lambda>dsn. Inr (client example_store)) New (Some no_options)
       (Some (client example_store)))
     = Inr \<lparr>options = defaultOptions, client = client example_store\<rparr>"
proof -
  have "fst (Db2Store (\<lambda>dsn. Inr (client example_store)) New (Some no_options)
       (Some (client example_store)))
     = Inr \<lparr>options = defaultOptions, client = client example_store\<rparr>"
    by (simp add: Db2Store_def extend_options_def no_options_def given_def given_some_def
        defaultOptions_def example_store_def)
  with plain_call_throws[of "\<lambda>dsn. Inr (client example_store)" "Some no_options"
      "Some (client example_store)"]
  show ?thesis by simp
qed

end
